theory Spec2Isabelle
  imports Main
begin

text \<open>
  The client-side scripts of the AcuarelaArte portfolio site: the responsive menu, the
  theme toggle, the lazy image loader and the page orchestrator. Each component is a
  record of its own fields and of the part of the browser it reads and writes; each
  method and listener is a function from state to state, in the order of the statements
  of the source; timeouts, animation frames, pending image loads, dispatched events and
  console calls are kept in the state, so that what the browser does later is an event
  applied to it.
\<close>

section \<open>DOM elements, console and completions\<close>

text \<open>
  An element carries what the scripts read and write: its tag name, its class list
  (a DOMTokenList: ordered, without duplicates), its attributes (\<open>setAttribute\<close>,
  \<open>getAttribute\<close>, the \<open>dataset\<close> view of the \<open>data-*\<close> attributes, and the reflected
  properties \<open>src\<close>, \<open>srcset\<close>, \<open>alt\<close>, \<open>title\<close>, \<open>name\<close>), and its inline style, where
  a property that is not set reads as the empty string.
\<close>

record element =
  tagName :: string
  classList :: "string list"
  attributes :: "string \<rightharpoonup> string"
  style :: "string \<Rightarrow> string"

definition classList_add :: "string \<Rightarrow> element \<Rightarrow> element" where
  "classList_add c e =
     (if c \<in> set (classList e) then e else e\<lparr>classList := classList e @ [c]\<rparr>)"

definition classList_remove :: "string \<Rightarrow> element \<Rightarrow> element" where
  "classList_remove c e = e\<lparr>classList := removeAll c (classList e)\<rparr>"

definition classList_contains :: "string \<Rightarrow> element \<Rightarrow> bool" where
  "classList_contains c e = (c \<in> set (classList e))"

definition setAttribute :: "string \<Rightarrow> string \<Rightarrow> element \<Rightarrow> element" where
  "setAttribute k v e = e\<lparr>attributes := (attributes e)(k \<mapsto> v)\<rparr>"

definition getAttribute :: "string \<Rightarrow> element \<Rightarrow> string option" where
  "getAttribute k e = attributes e k"

definition removeAttribute :: "string \<Rightarrow> element \<Rightarrow> element" where
  "removeAttribute k e = e\<lparr>attributes := (attributes e)(k := None)\<rparr>"

definition setStyle :: "string \<Rightarrow> string \<Rightarrow> element \<Rightarrow> element" where
  "setStyle p v e = e\<lparr>style := (style e)(p := v)\<rparr>"

definition createElement :: "string \<Rightarrow> element" where
  "createElement t =
     \<lparr>tagName = t, classList = [], attributes = Map.empty, style = (\<lambda>_. [])\<rparr>"

text \<open>
  JavaScript truthiness of a value that is a string, \<open>null\<close> or \<open>undefined\<close>: only a
  non-empty string is truthy.
\<close>

definition truthy :: "string option \<Rightarrow> bool" where
  "truthy v = (case v of None \<Rightarrow> False | Some s \<Rightarrow> s \<noteq> [])"

text \<open>
  Console calls are kept as a trace. The message texts are the source's, without their
  leading pictographs and with accented letters written plain; the interpolated values
  are kept.
\<close>

datatype console_call =
  ConsoleLog string | ConsoleWarn string | ConsoleError string

text \<open>
  A method either returns or throws. A JavaScript exception does not undo the writes made
  before it, so both completions carry the state reached. The only exceptions of the
  components are the TypeErrors of a property access on \<open>null\<close> or \<open>undefined\<close>.
\<close>

datatype 's completion = Normal 's | Throws 's

fun state_of :: "'s completion \<Rightarrow> 's" where
  "state_of (Normal s) = s"
| "state_of (Throws s) = s"

fun returns :: "'s completion \<Rightarrow> bool" where
  "returns (Normal s) = True"
| "returns (Throws s) = False"

fun and_then :: "'s completion \<Rightarrow> ('s \<Rightarrow> 's completion) \<Rightarrow> 's completion" where
  "and_then (Normal s) f = f s"
| "and_then (Throws s) f = Throws s"

text \<open>
  The two accented labels of the menu button, as UTF-8 bytes:
  \<open>Cerrar men\<acute>u de navegaci\<acute>on\<close> and \<open>Abrir men\<acute>u de navegaci\<acute>on\<close>.
\<close>

definition menu_de_navegacion :: string where
  "menu_de_navegacion =
     ''men'' @ [CHR 0xC3, CHR 0xBA] @ '' de navegaci'' @ [CHR 0xC3, CHR 0xB3] @ ''n''"

definition label_cerrar :: string where
  "label_cerrar = ''Cerrar '' @ menu_de_navegacion"

definition label_abrir :: string where
  "label_abrir = ''Abrir '' @ menu_de_navegacion"


section \<open>ResponsiveMenu (js/components/ResponsiveMenu.js)\<close>

text \<open>
  The instance fields (\<open>menuToggle\<close>, \<open>navMenu\<close>, \<open>body\<close>, \<open>isOpen\<close>,
  \<open>desktopBreakpoint\<close>), the closure variable \<open>resizeTimer\<close> of
  \<open>setupResizeListener\<close>, and the parts of the browser the menu touches: the window
  width, the pending timeouts (identifier, delay in milliseconds, callback), the element
  holding the focus and the console. \<open>navLinks\<close> is the number of \<open>.nav-link\<close> elements
  inside \<open>navMenu\<close>; \<open>listening\<close> says that \<open>init\<close> has installed the listeners.
\<close>

datatype menu_callback = FocusFirstLink | ResizeCheck

datatype focus = FocusMenuToggle | FocusNavLink nat

record menu =
  menuToggle :: "element option"
  navMenu :: "element option"
  body :: element
  isOpen :: bool
  desktopBreakpoint :: nat
  resizeTimer :: "nat option"
  listening :: bool
  navLinks :: nat
  innerWidth :: nat
  activeElement :: "focus option"
  menu_timers :: "(nat \<times> nat \<times> menu_callback) list"
  menu_nextTimer :: nat
  menu_console :: "console_call list"

definition menu_log :: "string \<Rightarrow> menu \<Rightarrow> menu" where
  "menu_log msg m = m\<lparr>menu_console := menu_console m @ [ConsoleLog msg]\<rparr>"

definition menu_warn :: "string \<Rightarrow> menu \<Rightarrow> menu" where
  "menu_warn msg m = m\<lparr>menu_console := menu_console m @ [ConsoleWarn msg]\<rparr>"

text \<open>\<open>setTimeout\<close> returns a fresh identifier; \<open>clearTimeout\<close> of an identifier that is
  not pending, or of \<open>undefined\<close>, does nothing.\<close>

definition menu_setTimeout :: "menu_callback \<Rightarrow> nat \<Rightarrow> menu \<Rightarrow> nat \<times> menu" where
  "menu_setTimeout cb ms m =
     (menu_nextTimer m,
      m\<lparr>menu_timers := menu_timers m @ [(menu_nextTimer m, ms, cb)],
        menu_nextTimer := Suc (menu_nextTimer m)\<rparr>)"

definition menu_clearTimeout :: "nat option \<Rightarrow> menu \<Rightarrow> menu" where
  "menu_clearTimeout t m =
     m\<lparr>menu_timers := filter (\<lambda>(i, ms, cb). Some i \<noteq> t) (menu_timers m)\<rparr>"

definition focusFirstMenuItem :: "menu \<Rightarrow> menu" where
  "focusFirstMenuItem m =
     (if 0 < navLinks m then snd (menu_setTimeout FocusFirstLink 100 m) else m)"

definition openMenu :: "menu \<Rightarrow> menu completion" where
  "openMenu m =
     (let m1 = m\<lparr>isOpen := True\<rparr> in
      case navMenu m1 of
        None \<Rightarrow> Throws m1
      | Some nav \<Rightarrow>
          let m2 = m1\<lparr>navMenu := Some (classList_add ''active'' nav),
                     body := classList_add ''menu-open'' (body m1)\<rparr> in
          (case menuToggle m2 of
             None \<Rightarrow> Throws m2
           | Some btn \<Rightarrow>
               let m3 = m2\<lparr>menuToggle :=
                             Some (setAttribute ''aria-label'' label_cerrar
                                    (setAttribute ''aria-expanded'' ''true'' btn))\<rparr>;
                   m4 = m3\<lparr>body := setStyle ''overflow'' ''hidden'' (body m3)\<rparr>;
                   m5 = focusFirstMenuItem m4
               in Normal (menu_log ''Menu abierto'' m5)))"

definition closeMenu :: "menu \<Rightarrow> menu completion" where
  "closeMenu m =
     (let m1 = m\<lparr>isOpen := False\<rparr> in
      case navMenu m1 of
        None \<Rightarrow> Throws m1
      | Some nav \<Rightarrow>
          let m2 = m1\<lparr>navMenu := Some (classList_remove ''active'' nav),
                     body := classList_remove ''menu-open'' (body m1)\<rparr> in
          (case menuToggle m2 of
             None \<Rightarrow> Throws m2
           | Some btn \<Rightarrow>
               let m3 = m2\<lparr>menuToggle :=
                             Some (setAttribute ''aria-label'' label_abrir
                                    (setAttribute ''aria-expanded'' ''false'' btn))\<rparr>;
                   m4 = m3\<lparr>body := setStyle ''overflow'' [] (body m3)\<rparr>
               in Normal (menu_log ''Menu cerrado'' m4)))"

definition toggleMenu :: "menu \<Rightarrow> menu completion" where
  "toggleMenu m = (if isOpen m then closeMenu m else openMenu m)"

text \<open>The listeners installed by \<open>init\<close>.\<close>

definition linkClicked :: "menu \<Rightarrow> menu completion" where
  "linkClicked m =
     (if innerWidth m < desktopBreakpoint m then closeMenu m else Normal m)"

text \<open>The document's click listener; the argument says whether the click target lies
  inside \<open>menuToggle\<close> or \<open>navMenu\<close>.\<close>

definition documentClicked :: "bool \<Rightarrow> menu \<Rightarrow> menu completion" where
  "documentClicked inside m =
     (if \<not> isOpen m then Normal m
      else if inside then Normal m
      else closeMenu m)"

definition resized :: "menu \<Rightarrow> menu" where
  "resized m =
     (let m1 = menu_clearTimeout (resizeTimer m) m;
          (t, m2) = menu_setTimeout ResizeCheck 150 m1
      in m2\<lparr>resizeTimer := Some t\<rparr>)"

definition resizeCheck :: "menu \<Rightarrow> menu completion" where
  "resizeCheck m =
     (if desktopBreakpoint m \<le> innerWidth m \<and> isOpen m
      then and_then (closeMenu m)
             (\<lambda>m'. Normal (menu_log ''Menu cerrado por cambio a vista desktop'' m'))
      else Normal m)"

definition escapePressed :: "menu \<Rightarrow> menu completion" where
  "escapePressed m =
     (if isOpen m
      then and_then (closeMenu m) (\<lambda>m'. Normal (m'\<lparr>activeElement := Some FocusMenuToggle\<rparr>))
      else Normal m)"

definition getState :: "menu \<Rightarrow> bool" where
  "getState m = isOpen m"

definition destroy_menu :: "menu \<Rightarrow> menu completion" where
  "destroy_menu m =
     and_then (if isOpen m then closeMenu m else Normal m)
       (\<lambda>m'. Normal (menu_log ''ResponsiveMenu destruido'' m'))"

definition run_callback :: "menu_callback \<Rightarrow> menu \<Rightarrow> menu completion" where
  "run_callback cb m =
     (case cb of
        FocusFirstLink \<Rightarrow> Normal (m\<lparr>activeElement := Some (FocusNavLink 0)\<rparr>)
      | ResizeCheck \<Rightarrow> resizeCheck m)"

text \<open>
  The constructor: it looks the two elements up, sets the fields, and installs the
  listeners only when both elements were found.
\<close>

definition ResponsiveMenu_new ::
  "element option \<Rightarrow> element option \<Rightarrow> element \<Rightarrow> nat \<Rightarrow> nat \<Rightarrow> menu" where
  "ResponsiveMenu_new toggle nav bd links width =
     (let m = \<lparr>menuToggle = toggle, navMenu = nav, body = bd, isOpen = False,
               desktopBreakpoint = 1024, resizeTimer = None, listening = False,
               navLinks = links, innerWidth = width, activeElement = None,
               menu_timers = [], menu_nextTimer = 0, menu_console = []\<rparr>
      in if toggle = None \<or> nav = None
         then menu_warn
                ''ResponsiveMenu: Elementos requeridos no encontrados (menuToggle o navMenu)'' m
         else menu_log ''ResponsiveMenu inicializado correctamente'' (m\<lparr>listening := True\<rparr>))"

text \<open>
  What the browser can deliver to a menu: a click on the button, on a link of the menu,
  elsewhere in the document, a resize of the window to a new width, the Escape key, and
  the firing of a pending timeout. An exception thrown by a listener ends that listener
  only; the state it reached stays. Without listeners the user events reach nothing. The
  listener of the Tab key moves the focus among the links of the open menu and changes
  nothing else; it is left out.
\<close>

datatype menu_event =
  ClickToggle | ClickLink | ClickOutside | Resize nat | KeyEscape | TimerFires nat

definition pending_callback :: "nat \<Rightarrow> menu \<Rightarrow> menu_callback option" where
  "pending_callback t m =
     map_option (\<lambda>(i, ms, cb). cb) (find (\<lambda>(i, ms, cb). i = t) (menu_timers m))"

definition menu_handle :: "menu_event \<Rightarrow> menu \<Rightarrow> menu" where
  "menu_handle ev m =
     (case ev of
        TimerFires t \<Rightarrow>
          (case pending_callback t m of
             None \<Rightarrow> m
           | Some cb \<Rightarrow> state_of (run_callback cb (menu_clearTimeout (Some t) m)))
      | Resize w \<Rightarrow>
          (let m1 = m\<lparr>innerWidth := w\<rparr> in if listening m then resized m1 else m1)
      | ClickToggle \<Rightarrow> (if listening m then state_of (toggleMenu m) else m)
      | ClickLink \<Rightarrow>
          (if listening m
           then state_of (and_then (linkClicked m) (documentClicked True))
           else m)
      | ClickOutside \<Rightarrow> (if listening m then state_of (documentClicked False m) else m)
      | KeyEscape \<Rightarrow> (if listening m then state_of (escapePressed m) else m))"

fun menu_run :: "menu_event list \<Rightarrow> menu \<Rightarrow> menu" where
  "menu_run [] m = m"
| "menu_run (ev # evs) m = menu_run evs (menu_handle ev m)"

text \<open>The synchronisation of the flag with the DOM that the menu maintains.\<close>

definition menu_in_sync :: "menu \<Rightarrow> bool" where
  "menu_in_sync m =
     (case (navMenu m, menuToggle m) of
        (Some nav, Some btn) \<Rightarrow>
          (isOpen m = classList_contains ''active'' nav) \<and>
          (isOpen m = classList_contains ''menu-open'' (body m)) \<and>
          (isOpen m = (getAttribute ''aria-expanded'' btn = Some ''true'')) \<and>
          (isOpen m = (style (body m) ''overflow'' = ''hidden''))
      | _ \<Rightarrow> False)"


section \<open>ThemeToggle (js/components/ThemeToggle.js)\<close>

text \<open>
  The values a caller or a custom event can pass as a theme: the strict comparison
  \<open>!==\<close> tells a string from every other value.
\<close>

datatype jsval = JUndefined | JNull | JBool bool | JString string

fun js_toString :: "jsval \<Rightarrow> string" where
  "js_toString JUndefined = ''undefined''"
| "js_toString JNull = ''null''"
| "js_toString (JBool b) = (if b then ''true'' else ''false'')"
| "js_toString (JString s) = s"

fun js_truthy :: "jsval \<Rightarrow> bool" where
  "js_truthy JUndefined = False"
| "js_truthy JNull = False"
| "js_truthy (JBool b) = b"
| "js_truthy (JString s) = (s \<noteq> [])"

definition LIGHT :: string where "LIGHT = ''light''"
definition DARK :: string where "DARK = ''dark''"

text \<open>The table \<open>themeColors\<close>; a key it does not have reads as \<open>undefined\<close>, which
  \<open>setAttribute\<close> writes as the string \<open>undefined\<close>.\<close>

definition themeColors :: "string \<Rightarrow> string option" where
  "themeColors theme =
     (if theme = ''light'' then Some ''#FEFEFE''
      else if theme = ''dark'' then Some ''#1A1A1A''
      else None)"

datatype storage_write = SetItem string string | RemoveItem string

datatype theme_event = ThemeChanged string nat

datatype theme_callback = RemoveToggleActive

datatype frame_callback = OuterFrame | InnerFrame

text \<open>
  The instance fields (\<open>toggleButton\<close>, \<open>htmlElement\<close>, \<open>metaThemeColor\<close>) and the parts of
  the browser the component uses: \<open>localStorage\<close> with the trace of the writes made to it,
  \<open>window.matchMedia\<close> (\<open>None\<close> when the browser has no such function, otherwise whether
  \<open>(prefers-color-scheme: dark)\<close> matches), the custom events dispatched on the document,
  \<open>Date.now()\<close>, the pending timeouts (delay, callback) and animation frames, and the
  console. \<open>metaCreated\<close> says that the component created the meta tag and appended it to
  the head; \<open>theme_listening\<close> and \<open>watching\<close> say that \<open>setupEventListeners\<close> and
  \<open>watchSystemPreference\<close> have installed their listeners.
\<close>

record theme_toggle =
  toggleButton :: "element option"
  htmlElement :: element
  metaThemeColor :: "element option"
  metaCreated :: bool
  localStorage :: "string \<rightharpoonup> string"
  storageWrites :: "storage_write list"
  prefersDark :: "bool option"
  theme_events :: "theme_event list"
  clock :: nat
  theme_timers :: "(nat \<times> theme_callback) list"
  theme_frames :: "frame_callback list"
  theme_listening :: bool
  watching :: bool
  theme_console :: "console_call list"

definition theme_log :: "string \<Rightarrow> theme_toggle \<Rightarrow> theme_toggle" where
  "theme_log msg t = t\<lparr>theme_console := theme_console t @ [ConsoleLog msg]\<rparr>"

definition theme_warn :: "string \<Rightarrow> theme_toggle \<Rightarrow> theme_toggle" where
  "theme_warn msg t = t\<lparr>theme_console := theme_console t @ [ConsoleWarn msg]\<rparr>"

definition theme_error :: "string \<Rightarrow> theme_toggle \<Rightarrow> theme_toggle" where
  "theme_error msg t = t\<lparr>theme_console := theme_console t @ [ConsoleError msg]\<rparr>"

definition getItem :: "string \<Rightarrow> theme_toggle \<Rightarrow> string option" where
  "getItem k t = localStorage t k"

definition setItem :: "string \<Rightarrow> string \<Rightarrow> theme_toggle \<Rightarrow> theme_toggle" where
  "setItem k v t =
     t\<lparr>localStorage := (localStorage t)(k \<mapsto> v),
       storageWrites := storageWrites t @ [SetItem k v]\<rparr>"

definition removeItem :: "string \<Rightarrow> theme_toggle \<Rightarrow> theme_toggle" where
  "removeItem k t =
     t\<lparr>localStorage := (localStorage t)(k := None),
       storageWrites := storageWrites t @ [RemoveItem k]\<rparr>"

definition getInitialTheme :: "theme_toggle \<Rightarrow> string" where
  "getInitialTheme t =
     (let savedTheme = getItem ''theme'' t in
      if truthy savedTheme \<and> (savedTheme = Some LIGHT \<or> savedTheme = Some DARK)
      then the savedTheme
      else case prefersDark t of
             Some True \<Rightarrow> DARK
           | _ \<Rightarrow> LIGHT)"

definition getCurrentTheme :: "theme_toggle \<Rightarrow> string" where
  "getCurrentTheme t =
     (let theme = getAttribute ''data-theme'' (htmlElement t)
      in if truthy theme then the theme else LIGHT)"

definition updateMetaThemeColor :: "string \<Rightarrow> theme_toggle \<Rightarrow> theme_toggle" where
  "updateMetaThemeColor theme t =
     (let t1 = (case metaThemeColor t of
                  None \<Rightarrow>
                    t\<lparr>metaThemeColor :=
                        Some (setAttribute ''name'' ''theme-color'' (createElement ''meta'')),
                      metaCreated := True\<rparr>
                | Some meta \<Rightarrow> t)
      in t1\<lparr>metaThemeColor :=
              map_option (setAttribute ''content''
                            (case themeColors theme of None \<Rightarrow> ''undefined'' | Some c \<Rightarrow> c))
                (metaThemeColor t1)\<rparr>)"

definition updateAriaAttributes :: "theme_toggle \<Rightarrow> theme_toggle completion" where
  "updateAriaAttributes t =
     (let currentTheme = getCurrentTheme t;
          label = (if currentTheme = LIGHT then ''Cambiar a modo oscuro''
                   else ''Cambiar a modo claro'')
      in case toggleButton t of
           None \<Rightarrow> Throws t
         | Some btn \<Rightarrow>
             Normal (t\<lparr>toggleButton :=
                        Some (setAttribute ''title'' label
                               (setAttribute ''aria-pressed''
                                  (if currentTheme = DARK then ''true'' else ''false'')
                                  (setAttribute ''aria-label'' label btn)))\<rparr>))"

definition dispatchThemeChangeEvent :: "string \<Rightarrow> theme_toggle \<Rightarrow> theme_toggle" where
  "dispatchThemeChangeEvent theme t =
     t\<lparr>theme_events := theme_events t @ [ThemeChanged theme (clock t)]\<rparr>"

definition setTheme :: "jsval \<Rightarrow> bool \<Rightarrow> theme_toggle \<Rightarrow> theme_toggle completion" where
  "setTheme theme saveToStorage t =
     (if theme \<noteq> JString LIGHT \<and> theme \<noteq> JString DARK
      then Normal (theme_error (''Tema invalido: '' @ js_toString theme) t)
      else
        let th = js_toString theme;
            t1 = t\<lparr>htmlElement := setAttribute ''data-theme'' th (htmlElement t)\<rparr>;
            t2 = (if saveToStorage then setItem ''theme'' th t1 else t1);
            t3 = updateMetaThemeColor th t2
        in and_then (updateAriaAttributes t3)
             (\<lambda>t4. Normal (dispatchThemeChangeEvent th t4)))"

definition animateButton :: "theme_toggle \<Rightarrow> theme_toggle completion" where
  "animateButton t =
     (case toggleButton t of
        None \<Rightarrow> Throws t
      | Some btn \<Rightarrow>
          Normal (t\<lparr>toggleButton := Some (classList_add ''theme-toggle-active'' btn),
                   theme_timers := theme_timers t @ [(300, RemoveToggleActive)]\<rparr>))"

definition toggleTheme :: "theme_toggle \<Rightarrow> theme_toggle completion" where
  "toggleTheme t =
     (let currentTheme = getCurrentTheme t;
          newTheme = (if currentTheme = LIGHT then DARK else LIGHT)
      in and_then (setTheme (JString newTheme) True t)
           (\<lambda>t1. and_then (animateButton t1)
              (\<lambda>t2. Normal (theme_log (''Tema cambiado: '' @ currentTheme @ '' -> '' @ newTheme)
                               t2))))"

definition applyThemeWithoutTransition :: "string \<Rightarrow> theme_toggle \<Rightarrow> theme_toggle completion"
  where
  "applyThemeWithoutTransition theme t =
     (let t1 = t\<lparr>htmlElement := classList_add ''theme-transition-disabled'' (htmlElement t)\<rparr>
      in and_then (setTheme (JString theme) False t1)
           (\<lambda>t2. Normal (t2\<lparr>theme_frames := theme_frames t2 @ [OuterFrame]\<rparr>)))"

definition setupEventListeners :: "theme_toggle \<Rightarrow> theme_toggle completion" where
  "setupEventListeners t =
     (case toggleButton t of
        None \<Rightarrow> Throws t
      | Some btn \<Rightarrow> Normal (t\<lparr>theme_listening := True\<rparr>))"

definition watchSystemPreference :: "theme_toggle \<Rightarrow> theme_toggle" where
  "watchSystemPreference t =
     (case prefersDark t of None \<Rightarrow> t | Some d \<Rightarrow> t\<lparr>watching := True\<rparr>)"

definition initialize :: "theme_toggle \<Rightarrow> theme_toggle completion" where
  "initialize t =
     (let initialTheme = getInitialTheme t
      in and_then (applyThemeWithoutTransition initialTheme t)
           (\<lambda>t1. and_then (setupEventListeners t1)
              (\<lambda>t2. and_then (updateAriaAttributes (watchSystemPreference t2))
                 (\<lambda>t3. Normal (theme_log (''Tema inicial: '' @ initialTheme) t3)))))"

definition ThemeToggle_new ::
  "element option \<Rightarrow> element \<Rightarrow> element option \<Rightarrow> (string \<rightharpoonup> string) \<Rightarrow> bool option \<Rightarrow> nat
     \<Rightarrow> theme_toggle completion" where
  "ThemeToggle_new button html meta storage prefers now =
     (let t = \<lparr>toggleButton = button, htmlElement = html, metaThemeColor = meta,
               metaCreated = False, localStorage = storage, storageWrites = [],
               prefersDark = prefers, theme_events = [], clock = now, theme_timers = [],
               theme_frames = [], theme_listening = False, watching = False,
               theme_console = []\<rparr>
      in if button = None
         then Normal (theme_warn
                (''ThemeToggle: Boton de tema no encontrado. ID esperado: '' @
                 [CHR 0x22] @ ''themeToggle'' @ [CHR 0x22]) t)
         else and_then (initialize t)
                (\<lambda>t1. Normal (theme_log ''ThemeToggle: Inicializado correctamente'' t1)))"

text \<open>The listeners and the public methods.\<close>

definition setThemeRequested :: "jsval option \<Rightarrow> theme_toggle \<Rightarrow> theme_toggle completion" where
  "setThemeRequested detail t =
     (case detail of
        None \<Rightarrow> Normal t
      | Some theme \<Rightarrow> if js_truthy theme then setTheme theme True t else Normal t)"

definition systemPreferenceChanged :: "bool \<Rightarrow> theme_toggle \<Rightarrow> theme_toggle completion" where
  "systemPreferenceChanged matches t =
     (if \<not> truthy (getItem ''theme'' t)
      then let newTheme = (if matches then DARK else LIGHT)
           in and_then (setTheme (JString newTheme) True t)
                (\<lambda>t1. Normal (theme_log
                   (''Tema actualizado por preferencia del sistema: '' @ newTheme) t1))
      else Normal t)"

definition getTheme :: "theme_toggle \<Rightarrow> string" where
  "getTheme t = getCurrentTheme t"

definition setThemePublic :: "jsval \<Rightarrow> theme_toggle \<Rightarrow> theme_toggle completion" where
  "setThemePublic theme t = setTheme theme True t"

definition resetToSystemPreference :: "theme_toggle \<Rightarrow> theme_toggle completion" where
  "resetToSystemPreference t =
     (let t1 = removeItem ''theme'' t in
      case prefersDark t1 of
        None \<Rightarrow> Throws t1
      | Some d \<Rightarrow>
          let systemTheme = (if d then DARK else LIGHT)
          in and_then (setTheme (JString systemTheme) False t1)
               (\<lambda>t2. Normal (theme_log
                  (''Tema reseteado a preferencia del sistema: '' @ systemTheme) t2)))"

definition destroy_theme :: "theme_toggle \<Rightarrow> theme_toggle" where
  "destroy_theme t = theme_log ''ThemeToggle: Destruido'' t"

definition run_frame :: "frame_callback \<Rightarrow> theme_toggle \<Rightarrow> theme_toggle" where
  "run_frame cb t =
     (case cb of
        OuterFrame \<Rightarrow> t\<lparr>theme_frames := theme_frames t @ [InnerFrame]\<rparr>
      | InnerFrame \<Rightarrow>
          t\<lparr>htmlElement := classList_remove ''theme-transition-disabled'' (htmlElement t)\<rparr>)"

definition run_theme_callback :: "theme_callback \<Rightarrow> theme_toggle \<Rightarrow> theme_toggle completion"
  where
  "run_theme_callback cb t =
     (case cb of
        RemoveToggleActive \<Rightarrow>
          (case toggleButton t of
             None \<Rightarrow> Throws t
           | Some btn \<Rightarrow>
               Normal (t\<lparr>toggleButton := Some (classList_remove ''theme-toggle-active'' btn)\<rparr>)))"

text \<open>
  Everything that can run code of the component: the user's click and keyboard shortcut,
  the \<open>setTheme\<close> custom event, a change of the system preference, the public methods, the
  passing of time, and the firing of the first pending animation frame or of a pending
  timeout. An exception ends the listener or the call; the state it reached stays.
\<close>

datatype theme_op =
  ButtonClicked | ShortcutPressed | SetThemeEvent "jsval option" | PreferenceChanged bool
  | CallSetThemePublic jsval | CallSetTheme jsval bool | CallToggleTheme
  | CallResetToSystemPreference | CallDestroy | Tick nat | FrameFires | TimeoutFires nat

definition theme_perform :: "theme_op \<Rightarrow> theme_toggle \<Rightarrow> theme_toggle" where
  "theme_perform op t =
     (case op of
        ButtonClicked \<Rightarrow> (if theme_listening t then state_of (toggleTheme t) else t)
      | ShortcutPressed \<Rightarrow> (if theme_listening t then state_of (toggleTheme t) else t)
      | SetThemeEvent detail \<Rightarrow>
          (if theme_listening t then state_of (setThemeRequested detail t) else t)
      | PreferenceChanged matches \<Rightarrow>
          (let t1 = t\<lparr>prefersDark := map_option (\<lambda>d. matches) (prefersDark t)\<rparr>
           in if watching t then state_of (systemPreferenceChanged matches t1) else t1)
      | CallSetThemePublic theme \<Rightarrow> state_of (setThemePublic theme t)
      | CallSetTheme theme save \<Rightarrow> state_of (setTheme theme save t)
      | CallToggleTheme \<Rightarrow> state_of (toggleTheme t)
      | CallResetToSystemPreference \<Rightarrow> state_of (resetToSystemPreference t)
      | CallDestroy \<Rightarrow> destroy_theme t
      | Tick n \<Rightarrow> t\<lparr>clock := clock t + n\<rparr>
      | FrameFires \<Rightarrow>
          (case theme_frames t of
             [] \<Rightarrow> t
           | cb # rest \<Rightarrow> run_frame cb (t\<lparr>theme_frames := rest\<rparr>))
      | TimeoutFires i \<Rightarrow>
          (if i < length (theme_timers t)
           then state_of (run_theme_callback (snd (theme_timers t ! i))
                            (t\<lparr>theme_timers := take i (theme_timers t) @
                                                drop (Suc i) (theme_timers t)\<rparr>))
           else t))"

fun theme_run :: "theme_op list \<Rightarrow> theme_toggle \<Rightarrow> theme_toggle" where
  "theme_run [] t = t"
| "theme_run (op # ops) t = theme_run ops (theme_perform op t)"


section \<open>Image loader (js/utils/imageLoader.js)\<close>

definition rootMargin :: string where "rootMargin = ''50px''"
definition lazyClass :: string where "lazyClass = ''lazy-load''"
definition loadingClass :: string where "loadingClass = ''image-loading''"
definition loadedClass :: string where "loadedClass = ''image-loaded''"
definition errorClass :: string where "errorClass = ''image-error''"
definition placeholderClass :: string where "placeholderClass = ''lazy-placeholder''"
definition maxRetries :: nat where "maxRetries = 3"
definition retryDelay :: nat where "retryDelay = 1000"

fun show_nat :: "nat \<Rightarrow> string" where
  "show_nat n =
     (if n < 10 then [''0123456789'' ! n]
      else show_nat (n div 10) @ [''0123456789'' ! (n mod 10)])"

declare show_nat.simps [simp del]

datatype image_event =
  ImageLoaded string "string option" | ImageError string nat

text \<open>
  Elements are objects with an identity: the retry map is keyed by the image object, and
  the same image is reached from the document, from the observer, from a pending load and
  from a pending retry. So the elements live in a store, addressed by reference, and
  \<open>document\<close> lists the references of the elements of the page in document order. The
  tag name of an element is kept in lower case, as the selectors write it.

  \<open>observers\<close> are the IntersectionObservers created so far, each with the targets it
  observes: a new call of \<open>initImageLoader\<close> creates another one and leaves the earlier
  ones observing. The module variable \<open>imageObserver\<close> is \<open>None\<close> for \<open>null\<close>, otherwise the
  index of the observer created last. \<open>requests\<close> are
  the temporary \<open>Image\<close> objects whose load is under way (the image they were made for,
  with the \<open>src\<close> and \<open>srcset\<close> captured by their handlers), \<open>loader_timers\<close> the pending
  retries (delay in milliseconds, image), \<open>loader_events\<close> the custom events dispatched
  (target, event), \<open>preloads\<close> the \<open>href\<close>s of the preload links appended to the head.
\<close>

record loader =
  elems :: "nat \<Rightarrow> element"
  document :: "nat list"
  retryMap :: "nat \<rightharpoonup> nat"
  observers :: "nat list list"
  imageObserver :: "nat option"
  hasIntersectionObserver :: bool
  requests :: "(nat \<times> string \<times> string option) list"
  loader_timers :: "(nat \<times> nat) list"
  loader_events :: "(nat \<times> image_event) list"
  preloads :: "string list"
  loader_console :: "console_call list"

definition loader_log :: "string \<Rightarrow> loader \<Rightarrow> loader" where
  "loader_log msg l = l\<lparr>loader_console := loader_console l @ [ConsoleLog msg]\<rparr>"

definition loader_warn :: "string \<Rightarrow> loader \<Rightarrow> loader" where
  "loader_warn msg l = l\<lparr>loader_console := loader_console l @ [ConsoleWarn msg]\<rparr>"

definition loader_error :: "string \<Rightarrow> loader \<Rightarrow> loader" where
  "loader_error msg l = l\<lparr>loader_console := loader_console l @ [ConsoleError msg]\<rparr>"

definition update_elem :: "nat \<Rightarrow> (element \<Rightarrow> element) \<Rightarrow> loader \<Rightarrow> loader" where
  "update_elem r f l = l\<lparr>elems := (elems l)(r := f (elems l r))\<rparr>"

text \<open>The selectors of the module, over the whole document.\<close>

definition select_img :: "loader \<Rightarrow> nat list" where
  "select_img l = filter (\<lambda>r. tagName (elems l r) = ''img'') (document l)"

definition is_lazy_img :: "element \<Rightarrow> bool" where
  "is_lazy_img e \<longleftrightarrow> tagName e = ''img'' \<and> attributes e ''data-src'' \<noteq> None"

definition select_lazy :: "loader \<Rightarrow> nat list" where
  "select_lazy l = filter (\<lambda>r. is_lazy_img (elems l r)) (document l)"

definition select_class :: "string \<Rightarrow> loader \<Rightarrow> nat list" where
  "select_class c l = filter (\<lambda>r. classList_contains c (elems l r)) (document l)"

definition loadImage :: "nat \<Rightarrow> loader \<Rightarrow> loader" where
  "loadImage img l =
     (let src = getAttribute ''data-src'' (elems l img);
          srcset = getAttribute ''data-srcset'' (elems l img)
      in if \<not> truthy src then loader_warn ''Imagen sin data-src:'' l
         else
           let l1 = update_elem img
                      (\<lambda>e. classList_add loadingClass (classList_remove placeholderClass e)) l
           in l1\<lparr>requests := requests l1 @ [(img, the src, srcset)]\<rparr>)"

definition handleImageLoaded :: "nat \<Rightarrow> string \<Rightarrow> string option \<Rightarrow> loader \<Rightarrow> loader" where
  "handleImageLoaded img src srcset l =
     (let l1 = update_elem img (setAttribute ''src'' src) l;
          l2 = (if truthy srcset then update_elem img (setAttribute ''srcset'' (the srcset)) l1
                else l1);
          originalAlt = getAttribute ''data-alt'' (elems l2 img);
          l3 = (if truthy originalAlt
                then update_elem img (setAttribute ''alt'' (the originalAlt)) l2 else l2);
          l4 = update_elem img
                 (\<lambda>e. classList_add loadedClass (classList_remove loadingClass e)) l3;
          l5 = update_elem img
                 (\<lambda>e. removeAttribute ''data-srcset'' (removeAttribute ''data-src'' e)) l4;
          l6 = l5\<lparr>retryMap := (retryMap l5)(img := None)\<rparr>;
          l7 = l6\<lparr>loader_events := loader_events l6 @ [(img, ImageLoaded src srcset)]\<rparr>
      in loader_log (''Imagen cargada: '' @ src) l7)"

text \<open>\<open>retryMap.get(img) || 0\<close>\<close>

definition retries_of :: "loader \<Rightarrow> nat \<Rightarrow> nat" where
  "retries_of l img = (case retryMap l img of None \<Rightarrow> 0 | Some n \<Rightarrow> n)"

definition handleImageError :: "nat \<Rightarrow> string \<Rightarrow> loader \<Rightarrow> loader" where
  "handleImageError img src l =
     (let retries = retries_of l img
      in if retries < maxRetries
         then
           let l1 = l\<lparr>retryMap := (retryMap l)(img \<mapsto> retries + 1)\<rparr>;
               l2 = loader_warn (''Error cargando imagen (intento '' @ show_nat (retries + 1) @
                                 ''/'' @ show_nat maxRetries @ ''): '' @ src) l1
           in l2\<lparr>loader_timers := loader_timers l2 @ [(retryDelay * (retries + 1), img)]\<rparr>
         else
           let l1 = loader_error (''Error definitivo cargando imagen: '' @ src) l;
               l2 = update_elem img
                      (\<lambda>e. classList_add errorClass (classList_remove loadingClass e)) l1;
               fallback = getAttribute ''data-fallback'' (elems l2 img);
               l3 = (if truthy fallback
                     then update_elem img (setAttribute ''src'' (the fallback)) l2
                     else update_elem img (setAttribute ''alt'' ''Error al cargar imagen'') l2);
               l4 = l3\<lparr>loader_events := loader_events l3 @ [(img, ImageError src retries)]\<rparr>
           in l4\<lparr>retryMap := (retryMap l4)(img := None)\<rparr>)"

text \<open>
  \<open>imageObserver.observe(img)\<close> and \<open>observer.unobserve(img)\<close>. Observing a target again
  changes nothing. \<open>observeImages\<close> runs only right after \<open>initImageLoader\<close> has created the
  observer, so the variable is not \<open>null\<close> there.
\<close>

definition observe :: "nat \<Rightarrow> loader \<Rightarrow> loader" where
  "observe img l =
     (case imageObserver l of
        None \<Rightarrow> l
      | Some k \<Rightarrow>
          if img \<in> set (observers l ! k) then l
          else l\<lparr>observers := (observers l)[k := observers l ! k @ [img]]\<rparr>)"

definition unobserve :: "nat \<Rightarrow> nat \<Rightarrow> loader \<Rightarrow> loader" where
  "unobserve k img l = l\<lparr>observers := (observers l)[k := removeAll img (observers l ! k)]\<rparr>"

definition observeImages :: "loader \<Rightarrow> loader" where
  "observeImages l =
     (let lazyImages = select_lazy l;
          l1 = foldl (\<lambda>s img.
                  let s1 = update_elem img (classList_add placeholderClass) s;
                      s2 = (if \<not> truthy (getAttribute ''alt'' (elems s1 img))
                            then update_elem img (setAttribute ''alt'' ''Imagen cargando...'') s1
                            else s1)
                  in observe img s2)
                 l lazyImages
      in loader_log (''Observando '' @ show_nat (length lazyImages) @ '' imagenes lazy'') l1)"

definition loadAllImagesImmediately :: "loader \<Rightarrow> loader" where
  "loadAllImagesImmediately l =
     (let lazyImages = select_lazy l;
          l1 = foldl (\<lambda>s img.
                  let src = getAttribute ''data-src'' (elems s img);
                      srcset = getAttribute ''data-srcset'' (elems s img);
                      s1 = (if truthy src then update_elem img (setAttribute ''src'' (the src)) s
                            else s);
                      s2 = (if truthy srcset
                            then update_elem img (setAttribute ''srcset'' (the srcset)) s1
                            else s1)
                  in update_elem img
                       (\<lambda>e. removeAttribute ''data-srcset'' (removeAttribute ''data-src'' e)) s2)
                 l lazyImages
      in loader_log ''Cargadas todas las imagenes inmediatamente (fallback)'' l1)"

definition initImageLoader :: "loader \<Rightarrow> loader" where
  "initImageLoader l =
     (if \<not> hasIntersectionObserver l
      then loadAllImagesImmediately
             (loader_warn ''IntersectionObserver no soportado, cargando todas las imagenes'' l)
      else loader_log ''Image Loader inicializado''
             (observeImages (l\<lparr>observers := observers l @ [[]],
                               imageObserver := Some (length (observers l))\<rparr>)))"

text \<open>The callback of an observer; \<open>observer\<close> is the index of the observer that calls
  it.\<close>

definition handleIntersection :: "(bool \<times> nat) list \<Rightarrow> nat \<Rightarrow> loader \<Rightarrow> loader" where
  "handleIntersection entries observer l =
     foldl (\<lambda>s (isIntersecting, img).
              if isIntersecting then unobserve observer img (loadImage img s) else s)
           l entries"

definition preloadCriticalImages :: "string list \<Rightarrow> loader \<Rightarrow> loader" where
  "preloadCriticalImages urls l =
     (if urls = [] then l
      else loader_log (''Precargadas '' @ show_nat (length urls) @ '' imagenes criticas'')
             (l\<lparr>preloads := preloads l @ urls\<rparr>))"


definition cleanup :: "loader \<Rightarrow> loader" where
  "cleanup l =
     (let l1 = (case imageObserver l of
                  None \<Rightarrow> l
                | Some k \<Rightarrow> l\<lparr>observers := (observers l)[k := []], imageObserver := None\<rparr>)
      in loader_log ''Image Loader limpiado'' (l1\<lparr>retryMap := Map.empty\<rparr>))"

text \<open>
  \<open>getLoadingStats\<close>. The counts are lengths of node lists; \<open>pending\<close> is a difference and
  can be negative. The percentage is a double: a division by zero gives \<open>NaN\<close> for \<open>0 / 0\<close>
  and \<open>Infinity\<close> for a positive numerator, and \<open>Math.round\<close> and the multiplication by 100
  keep both. For a positive total the result is the double computation
  \<open>Math.round((loaded / total) * 100)\<close>, whose rounding this theory does not model: it is the
  parameter \<open>round_percent\<close>.
\<close>

datatype number = NaN | Infinity | Finite int

record stats =
  total_stat :: nat
  lazy :: nat
  loaded :: nat
  loading :: nat
  errors :: nat
  pending :: int
  percentage :: number

definition percent :: "(nat \<Rightarrow> nat \<Rightarrow> int) \<Rightarrow> nat \<Rightarrow> nat \<Rightarrow> number" where
  "percent round_percent n d =
     (if d = 0 then (if n = 0 then NaN else Infinity) else Finite (round_percent n d))"

definition getLoadingStats :: "(nat \<Rightarrow> nat \<Rightarrow> int) \<Rightarrow> loader \<Rightarrow> stats" where
  "getLoadingStats round_percent l =
     (let allImages = select_img l;
          lazyImages = select_lazy l;
          loadedImages = select_class loadedClass l;
          errorImages = select_class errorClass l;
          loadingImages = select_class loadingClass l
      in \<lparr>total_stat = length allImages,
          lazy = length lazyImages,
          loaded = length loadedImages,
          loading = length loadingImages,
          errors = length errorImages,
          pending = int (length lazyImages) - int (length loadedImages) -
                    int (length errorImages),
          percentage = percent round_percent (length loadedImages) (length allImages)\<rparr>)"

text \<open>
  The callbacks the browser runs for the loader: the callback of an observer, with entries
  for targets that observer observes; the \<open>onload\<close> or \<open>onerror\<close> handler of a pending
  temporary image; and a pending retry.
\<close>

definition remove_nth :: "nat \<Rightarrow> 'a list \<Rightarrow> 'a list" where
  "remove_nth i xs = take i xs @ drop (Suc i) xs"

definition load_succeeds :: "nat \<Rightarrow> loader \<Rightarrow> loader" where
  "load_succeeds k l =
     (if k < length (requests l)
      then case requests l ! k of
             (img, src, srcset) \<Rightarrow>
               handleImageLoaded img src srcset (l\<lparr>requests := remove_nth k (requests l)\<rparr>)
      else l)"

definition load_fails :: "nat \<Rightarrow> loader \<Rightarrow> loader" where
  "load_fails k l =
     (if k < length (requests l)
      then case requests l ! k of
             (img, src, srcset) \<Rightarrow>
               handleImageError img src (l\<lparr>requests := remove_nth k (requests l)\<rparr>)
      else l)"

definition retry_fires :: "nat \<Rightarrow> loader \<Rightarrow> loader" where
  "retry_fires k l =
     (if k < length (loader_timers l)
      then loadImage (snd (loader_timers l ! k))
             (l\<lparr>loader_timers := remove_nth k (loader_timers l)\<rparr>)
      else l)"

datatype loader_event =
  Intersects nat "(bool \<times> nat) list" | LoadSucceeds nat | LoadFails nat | RetryFires nat

definition loader_handle :: "loader_event \<Rightarrow> loader \<Rightarrow> loader" where
  "loader_handle ev l =
     (case ev of
        Intersects k entries \<Rightarrow>
          (if k < length (observers l)
           then handleIntersection
                  (filter (\<lambda>(isIntersecting, img). img \<in> set (observers l ! k)) entries) k l
           else l)
      | LoadSucceeds k \<Rightarrow> load_succeeds k l
      | LoadFails k \<Rightarrow> load_fails k l
      | RetryFires k \<Rightarrow> retry_fires k l)"

fun loader_run :: "loader_event list \<Rightarrow> loader \<Rightarrow> loader" where
  "loader_run [] l = l"
| "loader_run (ev # evs) l = loader_run evs (loader_handle ev l)"

text \<open>
  The last statement of the module runs when the module is imported: it calls
  \<open>initImageLoader\<close>, at once or, while the document is still loading, at
  \<open>DOMContentLoaded\<close>. Both copies of the orchestrator import the module in their first
  statement, and call \<open>initImageLoader\<close> themselves in \<open>loadCoreModules\<close>.
\<close>

definition imageLoader_imported :: "loader \<Rightarrow> loader" where
  "imageLoader_imported l = initImageLoader l"


section \<open>The page orchestrator (js/main.js)\<close>

text \<open>
  The repository holds two copies of the orchestrator. In \<open>js/main.js\<close> the method
  \<open>loadCoreModules\<close> creates the responsive menu when the element \<open>menuToggle\<close> exists;
  in the other copy that block is commented out, and the menu is left to the
  auto-initialisation at the end of \<open>ResponsiveMenu.js\<close>; the same copy has one log of
  \<open>init\<close> commented out. Everything else is the same.
\<close>

datatype revision = MainJs | MenuCommentedOut

datatype component =
  ThemeToggleInstance | ResponsiveMenuInstance | GalleryInstance | LightboxInstance
  | FormValidatorInstance string

datatype app_action =
  InitImageLoader | PreloadCriticalImages "string list" | ScrollAnimations | Parallax
  | Accordions | Timeline | SmoothScroll | ImageErrorListener | PerformanceMonitoring

datatype app_event = AppInitialized

text \<open>
  What the orchestrator reads from the window and the document: the host name and the
  path of the location, the saved theme, which identifiers \<open>getElementById\<close> finds, for
  which module specifiers a dynamic \<open>import()\<close> resolves and the constructor of the class
  it exports returns (a rejected import throws at its \<open>await\<close>, a constructor at its
  \<open>new\<close>; the classes \<open>Gallery\<close>, \<open>Lightbox\<close> and \<open>FormValidator\<close> are not among the
  sources, and the constructors of the two that are return whenever they are called),
  the \<open>data-src\<close> of the first \<open>.hero-img\<close> element (\<open>None\<close> when there is no such
  element), and the number of \<open>[data-parallax]\<close> elements.
\<close>

record page =
  hostname :: string
  pathname :: string
  savedTheme :: "string option"
  hasElement :: "string \<Rightarrow> bool"
  importable :: "string \<Rightarrow> bool"
  heroImage :: "string option option"
  parallaxElements :: nat

text \<open>
  The fields \<open>state\<close> and \<open>modules\<close> of the application object, and its effects: the
  \<open>data-theme\<close> attribute of the document element, the elements prepended to the body
  (with their markup), the events dispatched on the document, the calls into the image
  loader and the listeners and observers installed, and the console.
\<close>

record app =
  isInitialized :: bool
  currentPage :: string
  app_theme :: string
  menuOpen :: bool
  themeToggle :: "component option"
  responsiveMenu :: "component option"
  gallery :: "component option"
  lightbox :: "component option"
  formValidator :: "component option"
  dataTheme :: "string option"
  bodyPrepended :: "(element \<times> string) list"
  app_events :: "app_event list"
  app_actions :: "app_action list"
  app_console :: "console_call list"

definition lazyLoading :: bool where "lazyLoading = True"
definition darkMode :: bool where "darkMode = True"
definition analytics :: bool where "analytics = False"

definition debug :: "page \<Rightarrow> bool" where
  "debug p \<longleftrightarrow> hostname p = ''localhost''"

definition app_log :: "page \<Rightarrow> string \<Rightarrow> app \<Rightarrow> app" where
  "app_log p msg a =
     (if debug p then a\<lparr>app_console := app_console a @ [ConsoleLog (''[AcuarelaArte] '' @ msg)]\<rparr>
      else a)"

definition act :: "app_action \<Rightarrow> app \<Rightarrow> app" where
  "act x a = a\<lparr>app_actions := app_actions a @ [x]\<rparr>"

text \<open>\<open>path.split('/').pop().replace('.html', '') || 'index'\<close>\<close>

definition last_segment :: "string \<Rightarrow> string" where
  "last_segment path = rev (takeWhile (\<lambda>c. c \<noteq> CHR ''/'') (rev path))"

fun remove_first :: "string \<Rightarrow> string \<Rightarrow> string" where
  "remove_first pat [] = []"
| "remove_first pat (c # cs) =
     (if take (length pat) (c # cs) = pat then drop (length pat) (c # cs)
      else c # remove_first pat cs)"

definition getCurrentPage :: "page \<Rightarrow> string" where
  "getCurrentPage p =
     (let name = remove_first ''.html'' (last_segment (pathname p))
      in if name = [] then ''index'' else name)"

definition getCriticalImages :: "page \<Rightarrow> string list" where
  "getCriticalImages p =
     (case heroImage p of
        None \<Rightarrow> []
      | Some src \<Rightarrow> if truthy src then [the src] else [])"

text \<open>A dynamic import followed by the construction of the component into its slot.\<close>

definition import_module :: "page \<Rightarrow> string \<Rightarrow> (app \<Rightarrow> app) \<Rightarrow> app \<Rightarrow> app completion" where
  "import_module p specifier construct a =
     (if importable p specifier then Normal (construct a) else Throws a)"

definition loadCoreModules :: "revision \<Rightarrow> page \<Rightarrow> app \<Rightarrow> app completion" where
  "loadCoreModules copy p a =
     (let a1 = app_log p ''Cargando modulos core...'' a;
          a2 = (if lazyLoading
                then let a' = act InitImageLoader a1;
                         criticalImages = getCriticalImages p
                     in if 0 < length criticalImages
                        then act (PreloadCriticalImages criticalImages) a' else a'
                else a1)
      in and_then
           (if hasElement p ''themeToggle'' \<and> darkMode
            then import_module p ''./components/ThemeToggle.js''
                   (\<lambda>x. x\<lparr>themeToggle := Some ThemeToggleInstance\<rparr>) a2
            else Normal a2)
           (\<lambda>a3. and_then
              (if copy = MainJs \<and> hasElement p ''menuToggle''
               then import_module p ''./components/ResponsiveMenu.js''
                      (\<lambda>x. x\<lparr>responsiveMenu := Some ResponsiveMenuInstance\<rparr>) a3
               else Normal a3)
              (\<lambda>a4. Normal (app_log p ''Modulos core cargados'' a4))))"

definition loadHomeModules :: "page \<Rightarrow> app \<Rightarrow> app completion" where
  "loadHomeModules p a =
     (let a1 = act ScrollAnimations (app_log p ''Cargando modulos de Home...'' a)
      in Normal (if 0 < parallaxElements p then act Parallax a1 else a1))"

definition loadPortfolioModules :: "page \<Rightarrow> app \<Rightarrow> app completion" where
  "loadPortfolioModules p a =
     (let a1 = app_log p ''Cargando modulos de Portafolio...'' a
      in and_then
           (if hasElement p ''galleryGrid''
            then import_module p ''./components/Gallery.js''
                   (\<lambda>x. x\<lparr>gallery := Some GalleryInstance\<rparr>) a1
            else Normal a1)
           (\<lambda>a2. if hasElement p ''lightbox''
                  then import_module p ''./components/Lightbox.js''
                         (\<lambda>x. x\<lparr>lightbox := Some LightboxInstance\<rparr>) a2
                  else Normal a2))"

definition loadTechniquesModules :: "page \<Rightarrow> app \<Rightarrow> app completion" where
  "loadTechniquesModules p a =
     Normal (act Accordions (app_log p ''Cargando modulos de Tecnicas...'' a))"

definition loadProgressModules :: "page \<Rightarrow> app \<Rightarrow> app completion" where
  "loadProgressModules p a =
     Normal (act Timeline (app_log p ''Cargando modulos de Progreso...'' a))"

definition loadContactModules :: "page \<Rightarrow> app \<Rightarrow> app completion" where
  "loadContactModules p a =
     (let a1 = app_log p ''Cargando modulos de Contacto...'' a
      in if hasElement p ''contactForm''
         then import_module p ''./components/FormValidator.js''
                (\<lambda>x. x\<lparr>formValidator := Some (FormValidatorInstance ''contactForm'')\<rparr>) a1
         else Normal a1)"

definition loadMaterialsModules :: "page \<Rightarrow> app \<Rightarrow> app completion" where
  "loadMaterialsModules p a = Normal (app_log p ''Cargando modulos de Materiales...'' a)"

definition loadPageModules :: "page \<Rightarrow> app \<Rightarrow> app completion" where
  "loadPageModules p a =
     (let a1 = app_log p (''Cargando modulos para: '' @ currentPage a) a
      in if currentPage a1 = ''index'' then loadHomeModules p a1
         else if currentPage a1 = ''portafolio'' then loadPortfolioModules p a1
         else if currentPage a1 = ''tecnicas'' then loadTechniquesModules p a1
         else if currentPage a1 = ''progreso'' then loadProgressModules p a1
         else if currentPage a1 = ''contacto'' then loadContactModules p a1
         else if currentPage a1 = ''materiales'' then loadMaterialsModules p a1
         else Normal (app_log p ''Pagina sin modulos especificos'' a1))"

definition initGlobalListeners :: "page \<Rightarrow> app \<Rightarrow> app" where
  "initGlobalListeners p a =
     (let a1 = act ImageErrorListener (act SmoothScroll a)
      in if debug p then act PerformanceMonitoring a1 else a1)"


definition applyTheme :: "string \<Rightarrow> app \<Rightarrow> app" where
  "applyTheme theme a = a\<lparr>dataTheme := Some theme, app_theme := theme\<rparr>"

text \<open>The \<open>div\<close> of class \<open>init-error\<close> that \<open>handleInitError\<close> builds, with its markup.\<close>

definition init_error_banner :: "element \<times> string" where
  "init_error_banner =
     ((createElement ''div'')\<lparr>classList := [''init-error'']\<rparr>,
      ''<p>Error al cargar la aplicacion. Por favor, recarga la pagina.</p>'' @
      ''<button onclick=location.reload()>Recargar</button>'')"

definition handleInitError :: "app \<Rightarrow> app" where
  "handleInitError a = a\<lparr>bodyPrepended := init_error_banner # bodyPrepended a\<rparr>"

text \<open>
  \<open>init\<close>: the body of the \<open>try\<close>, and the \<open>catch\<close> that logs and shows the banner. The
  log of \<open>App inicializada correctamente\<close> is the one that the second copy has commented
  out.
\<close>

definition init_body :: "revision \<Rightarrow> page \<Rightarrow> app \<Rightarrow> app completion" where
  "init_body copy p a =
     and_then (loadCoreModules copy p (app_log p ''Inicializando AcuarelaArte App...'' a))
       (\<lambda>a1. and_then (loadPageModules p a1)
          (\<lambda>a2. let a3 = applyTheme (app_theme a2) (initGlobalListeners p a2);
                     a4 = a3\<lparr>isInitialized := True\<rparr>;
                     a5 = app_log p (''Pagina actual: '' @ currentPage a4)
                            (if copy = MainJs
                             then app_log p ''App inicializada correctamente'' a4 else a4)
                 in Normal (a5\<lparr>app_events := app_events a5 @ [AppInitialized]\<rparr>)))"

definition init :: "revision \<Rightarrow> page \<Rightarrow> app \<Rightarrow> app completion" where
  "init copy p a =
     (case init_body copy p a of
        Normal a' \<Rightarrow> Normal a'
      | Throws a' \<Rightarrow>
          Normal (handleInitError
                    (a'\<lparr>app_console := app_console a' @
                          [ConsoleError ''Error inicializando aplicacion:'']\<rparr>)))"

definition AcuarelaArteApp_new :: "page \<Rightarrow> app" where
  "AcuarelaArteApp_new p =
     \<lparr>isInitialized = False, currentPage = getCurrentPage p,
      app_theme = (if truthy (savedTheme p) then the (savedTheme p) else ''light''),
      menuOpen = False, themeToggle = None, responsiveMenu = None, gallery = None,
      lightbox = None, formValidator = None, dataTheme = None, bodyPrepended = [],
      app_events = [], app_actions = [], app_console = []\<rparr>"

text \<open>The application as the page starts it: the constructor, then \<open>init\<close>.\<close>

definition start :: "revision \<Rightarrow> page \<Rightarrow> app completion" where
  "start copy p = init copy p (AcuarelaArteApp_new p)"

text \<open>The auto-initialisation at the end of \<open>ResponsiveMenu.js\<close>: \<open>window.responsiveMenu\<close>
  is set exactly when both elements exist.\<close>

definition autoInitialise :: "page \<Rightarrow> component option" where
  "autoInitialise p =
     (if hasElement p ''menuToggle'' \<and> hasElement p ''navMenu''
      then Some ResponsiveMenuInstance else None)"



section \<open>Invariants, relations and example states\<close>

subsection \<open>ResponsiveMenu\<close>

text \<open>The pending timeouts that run the close-on-desktop check.\<close>
definition resize_checks :: "menu \<Rightarrow> (nat \<times> nat \<times> menu_callback) list" where
  "resize_checks m = filter (\<lambda>(i, ms, cb). cb = ResizeCheck) (menu_timers m)"

text \<open>
  What holds of the timeouts of a menu at every moment: identifiers are handed out in
  increasing order, and a pending timeout runs the close-on-desktop check exactly when it
  is the one \<open>resizeTimer\<close> remembers. \<open>menu_found\<close> is the guard of the constructor.
\<close>
definition menu_inv :: "menu \<Rightarrow> bool" where
  "menu_inv m \<longleftrightarrow>
     desktopBreakpoint m = 1024 \<and>
     (\<forall>t. resizeTimer m = Some t \<longrightarrow> t < menu_nextTimer m) \<and>
     (\<forall>(i, ms, cb) \<in> set (menu_timers m).
        i < menu_nextTimer m \<and> (cb = ResizeCheck \<longleftrightarrow> resizeTimer m = Some i))"
definition menu_found :: "menu \<Rightarrow> bool" where
  "menu_found m \<longleftrightarrow> menuToggle m \<noteq> None \<and> navMenu m \<noteq> None"

text \<open>A menu with three links in a window 800 pixels wide; then the button is clicked and
  the window is resized to 1200 pixels.\<close>
definition example_menu :: menu where
  "example_menu =
     ResponsiveMenu_new (Some (createElement ''button'')) (Some (createElement ''ul''))
       (createElement ''body'') 3 800"
definition example_resized :: menu where
  "example_resized = menu_run [ClickToggle, Resize 1200] example_menu"


subsection \<open>ThemeToggle\<close>

text \<open>
  The key of a write to the storage, and the relation between two states of the component
  that differ, in the storage, by writes to the key \<open>theme\<close> only.
\<close>
fun write_key :: "storage_write \<Rightarrow> string" where
  "write_key (SetItem k v) = k"
| "write_key (RemoveItem k) = k"
definition only_theme_key :: "theme_toggle \<Rightarrow> theme_toggle \<Rightarrow> bool" where
  "only_theme_key t t' \<longleftrightarrow>
     (\<forall>k. k \<noteq> ''theme'' \<longrightarrow> localStorage t' k = localStorage t k) \<and>
     take (length (storageWrites t)) (storageWrites t') = storageWrites t \<and>
     (\<forall>w \<in> set (drop (length (storageWrites t)) (storageWrites t')). write_key w = ''theme'')"

text \<open>An initialised component on a light page, with a foreign key in the storage.\<close>
definition example_theme :: theme_toggle where
  "example_theme =
     \<lparr>toggleButton = Some (createElement ''button''),
      htmlElement = setAttribute ''data-theme'' ''light'' (createElement ''html''),
      metaThemeColor = None, metaCreated = False,
      localStorage = [''lang'' \<mapsto> ''es''], storageWrites = [],
      prefersDark = Some True, theme_events = [], clock = 0, theme_timers = [],
      theme_frames = [], theme_listening = True, watching = True, theme_console = []\<rparr>"


subsection \<open>Image loader\<close>

text \<open>
  A page whose elements are lazy images with a fallback; the same page once the first image
  has used up its retries; a page of two plain \<open>div\<close>s; and a page with no image whose
  only element, a \<open>div\<close>, carries the class \<open>image-loaded\<close>.
\<close>
definition example_loader :: loader where
  "example_loader =
     \<lparr>elems = (\<lambda>r. setAttribute ''data-fallback'' ''fallback.jpg''
                    (setAttribute ''data-src'' ''obra.jpg'' (createElement ''img''))),
      document = [0], retryMap = Map.empty, observers = [], imageObserver = None,
      hasIntersectionObserver = True, requests = [], loader_timers = [], loader_events = [],
      preloads = [], loader_console = []\<rparr>"
definition example_no_images :: loader where
  "example_no_images =
     \<lparr>elems = (\<lambda>r. createElement ''div''), document = [0, 1], retryMap = Map.empty,
      observers = [], imageObserver = None, hasIntersectionObserver = True, requests = [], loader_timers = [],
      loader_events = [], preloads = [], loader_console = []\<rparr>"
definition example_marked_div :: loader where
  "example_marked_div =
     \<lparr>elems = (\<lambda>r. classList_add ''image-loaded'' (createElement ''div'')), document = [0],
      retryMap = Map.empty, observers = [], imageObserver = None, hasIntersectionObserver = True,
      requests = [], loader_timers = [], loader_events = [], preloads = [],
      loader_console = []\<rparr>"




text \<open>
  The page of lazy images as the orchestrator starts it: the module has initialised itself
  on import, and \<open>loadCoreModules\<close> has called \<open>initImageLoader\<close> again. Then the image
  comes into view, each of the two observers is told so, and every load of the image
  fails: the two loads the observers start, and the load of every retry when its timeout
  fires. \<open>retry_warnings\<close> are the warnings of the console, one for each retry scheduled.
\<close>
definition example_started_twice :: loader where
  "example_started_twice = initImageLoader (imageLoader_imported example_loader)"

definition double_failure :: "loader_event list" where
  "double_failure =
     [Intersects 0 [(True, 0)], Intersects 1 [(True, 0)],
      LoadFails 0, LoadFails 0,
      RetryFires 0, LoadFails 0,
      RetryFires 0, LoadFails 0,
      RetryFires 0, LoadFails 0,
      RetryFires 0, LoadFails 0,
      RetryFires 0, LoadFails 0,
      RetryFires 0, LoadFails 0]"

definition retry_warnings :: "loader \<Rightarrow> string list" where
  "retry_warnings l =
     concat (map (\<lambda>c. case c of ConsoleWarn msg \<Rightarrow> [msg] | _ \<Rightarrow> []) (loader_console l))"

subsection \<open>Orchestrator\<close>

text \<open>
  How the slots of \<open>a'\<close> can differ from those of \<open>a\<close> after any part of \<open>init\<close>: a slot
  is untouched, or it holds its component, and then the element exists, on the page that
  loads the component.
\<close>
definition wired :: "revision \<Rightarrow> page \<Rightarrow> app \<Rightarrow> app \<Rightarrow> bool" where
  "wired cp p a a' \<longleftrightarrow>
     currentPage a' = currentPage a \<and>
     bodyPrepended a' = bodyPrepended a \<and>
     app_theme a' = app_theme a \<and>
     (themeToggle a' = themeToggle a \<or>
        hasElement p ''themeToggle'' \<and> themeToggle a' = Some ThemeToggleInstance) \<and>
     (responsiveMenu a' = responsiveMenu a \<or>
        cp = MainJs \<and> hasElement p ''menuToggle'' \<and>
        responsiveMenu a' = Some ResponsiveMenuInstance) \<and>
     (gallery a' = gallery a \<or>
        currentPage a = ''portafolio'' \<and> hasElement p ''galleryGrid'' \<and>
        gallery a' = Some GalleryInstance) \<and>
     (lightbox a' = lightbox a \<or>
        currentPage a = ''portafolio'' \<and> hasElement p ''lightbox'' \<and>
        lightbox a' = Some LightboxInstance) \<and>
     (formValidator a' = formValidator a \<or>
        currentPage a = ''contacto'' \<and> hasElement p ''contactForm'' \<and>
        formValidator a' = Some (FormValidatorInstance ''contactForm''))"

text \<open>Pages on which every element exists: the home page and the portfolio and contact
  pages with every import resolving, and the home page with every import rejected.\<close>
definition example_home :: page where
  "example_home =
     \<lparr>hostname = ''localhost'', pathname = ''/index.html'', savedTheme = None,
      hasElement = (\<lambda>i. True), importable = (\<lambda>m. True), heroImage = None,
      parallaxElements = 0\<rparr>"
definition example_portfolio :: page where
  "example_portfolio =
     \<lparr>hostname = ''localhost'', pathname = ''/portafolio.html'', savedTheme = None,
      hasElement = (\<lambda>i. True), importable = (\<lambda>m. True), heroImage = None,
      parallaxElements = 0\<rparr>"
definition example_contact :: page where
  "example_contact =
     \<lparr>hostname = ''localhost'', pathname = ''/contacto.html'', savedTheme = None,
      hasElement = (\<lambda>i. True), importable = (\<lambda>m. True), heroImage = None,
      parallaxElements = 0\<rparr>"
definition example_offline :: page where
  "example_offline =
     \<lparr>hostname = ''localhost'', pathname = ''/index.html'', savedTheme = None,
      hasElement = (\<lambda>i. True), importable = (\<lambda>m. False), heroImage = None,
      parallaxElements = 0\<rparr>"


section \<open>Basic facts about completions\<close>

lemmas dom_defs = classList_add_def classList_remove_def classList_contains_def
  setAttribute_def getAttribute_def removeAttribute_def setStyle_def

lemma and_then_state:
  "state_of (and_then c (\<lambda>s. Normal (f s))) = (if returns c then f (state_of c) else state_of c)"
  by (cases c) simp_all


lemma and_then_ok: "returns c \<Longrightarrow> and_then c f = f (state_of c)"
  by (cases c) simp_all


section \<open>ResponsiveMenu: synchronisation and debounce\<close>

lemmas menu_defs = menu_log_def menu_warn_def menu_setTimeout_def menu_clearTimeout_def
  focusFirstMenuItem_def

lemma openMenu_sync:
  "menuToggle m = Some btn \<Longrightarrow> navMenu m = Some nav \<Longrightarrow>
   returns (openMenu m) \<and> isOpen (state_of (openMenu m)) \<and> menu_in_sync (state_of (openMenu m))"
  by (simp add: openMenu_def menu_in_sync_def Let_def dom_defs menu_defs)

lemma closeMenu_sync:
  "menuToggle m = Some btn \<Longrightarrow> navMenu m = Some nav \<Longrightarrow>
   returns (closeMenu m) \<and> \<not> isOpen (state_of (closeMenu m)) \<and> menu_in_sync (state_of (closeMenu m))"
  by (simp add: closeMenu_def menu_in_sync_def Let_def dom_defs menu_defs)

lemma inv_new: "menu_inv (ResponsiveMenu_new toggle nav bd links width)"
  by (simp add: ResponsiveMenu_new_def menu_inv_def Let_def menu_defs)

lemma inv_open: "menu_inv m \<Longrightarrow> menu_inv (state_of (openMenu m))"
  by (auto simp add: openMenu_def menu_inv_def Let_def menu_defs split: option.splits)

lemma inv_close: "menu_inv m \<Longrightarrow> menu_inv (state_of (closeMenu m))"
  by (auto simp add: closeMenu_def menu_inv_def Let_def menu_defs split: option.splits)

lemma inv_resized: "menu_inv m \<Longrightarrow> menu_inv (resized m)"
  by (auto simp add: resized_def menu_inv_def Let_def menu_defs split: option.splits)

lemma inv_clear: "menu_inv m \<Longrightarrow> menu_inv (menu_clearTimeout t m)"
  by (auto simp add: menu_inv_def menu_defs)

lemma inv_callback: "menu_inv m \<Longrightarrow> menu_inv (state_of (run_callback cb m))"
proof (cases cb)
  case FocusFirstLink
  assume "menu_inv m"
  then show ?thesis using FocusFirstLink by (simp add: run_callback_def menu_inv_def)
next
  case ResizeCheck
  assume i: "menu_inv m"
  show ?thesis
  proof (cases "closeMenu m")
    case (Normal m')
    with inv_close [OF i] have "menu_inv m'" by simp
    then have "menu_inv (menu_log msg m')" for msg by (simp add: menu_inv_def menu_log_def)
    with i Normal ResizeCheck show ?thesis by (simp add: run_callback_def resizeCheck_def)
  next
    case (Throws m')
    with inv_close [OF i] have "menu_inv m'" by simp
    with i Throws ResizeCheck show ?thesis by (simp add: run_callback_def resizeCheck_def)
  qed
qed

lemma inv_handle: "menu_inv m \<Longrightarrow> menu_inv (menu_handle ev m)"
proof (cases ev)
  case ClickToggle
  assume i: "menu_inv m"
  with ClickToggle show ?thesis
    by (simp add: menu_handle_def toggleMenu_def inv_open inv_close)
next
  case ClickLink
  assume i: "menu_inv m"
  have "menu_inv (state_of (and_then (linkClicked m) (documentClicked True)))"
  proof (cases "linkClicked m")
    case (Normal m')
    have "menu_inv (state_of (linkClicked m))" using i by (simp add: linkClicked_def inv_close)
    with Normal have "menu_inv m'" by simp
    with Normal show ?thesis by (simp add: documentClicked_def)
  next
    case (Throws m')
    have "menu_inv (state_of (linkClicked m))" using i by (simp add: linkClicked_def inv_close)
    with Throws show ?thesis by simp
  qed
  with i ClickLink show ?thesis by (simp add: menu_handle_def)
next
  case ClickOutside
  assume i: "menu_inv m"
  with ClickOutside show ?thesis
    by (simp add: menu_handle_def documentClicked_def inv_close)
next
  case (Resize w)
  assume i: "menu_inv m"
  then have "menu_inv (m\<lparr>innerWidth := w\<rparr>)" by (simp add: menu_inv_def)
  with Resize show ?thesis
    by (simp add: menu_handle_def Let_def inv_resized)
next
  case KeyEscape
  assume i: "menu_inv m"
  have "menu_inv (state_of (escapePressed m))"
  proof (cases "closeMenu m")
    case (Normal m')
    with inv_close [OF i] have "menu_inv m'" by simp
    then have "menu_inv (m'\<lparr>activeElement := Some FocusMenuToggle\<rparr>)" by (simp add: menu_inv_def)
    with i Normal show ?thesis by (simp add: escapePressed_def)
  next
    case (Throws m')
    with inv_close [OF i] i show ?thesis by (simp add: escapePressed_def)
  qed
  with i KeyEscape show ?thesis by (simp add: menu_handle_def)
next
  case (TimerFires t)
  assume i: "menu_inv m"
  with TimerFires show ?thesis
    by (simp add: menu_handle_def inv_callback inv_clear split: option.splits)
qed

lemma inv_run: "menu_inv m \<Longrightarrow> menu_inv (menu_run evs m)"
  by (induction evs arbitrary: m) (simp_all add: inv_handle)

lemma listening_handle: "listening (menu_handle ev m) = listening m"
  by (cases ev)
     (auto simp add: menu_handle_def run_callback_def resizeCheck_def escapePressed_def
        documentClicked_def linkClicked_def toggleMenu_def openMenu_def closeMenu_def
        resized_def Let_def menu_defs split: option.splits menu_callback.splits)

lemma listening_run: "listening (menu_run evs m) = listening m"
  by (induction evs arbitrary: m) (simp_all add: listening_handle)

lemma resized_timers:
  assumes "menu_inv m"
  shows "menu_timers (resized m) =
           filter (\<lambda>(i, ms, cb). cb \<noteq> ResizeCheck) (menu_timers m) @
           [(menu_nextTimer m, 150, ResizeCheck)]"
proof -
  have "filter (\<lambda>(i, ms, cb). Some i \<noteq> resizeTimer m) (menu_timers m) =
        filter (\<lambda>(i, ms, cb). cb \<noteq> ResizeCheck) (menu_timers m)"
    using assms by (intro filter_cong) (auto simp add: menu_inv_def)
  then show ?thesis by (simp add: resized_def Let_def menu_defs)
qed

lemma fired_check:
  assumes "menu_inv m" "pending_callback t m = Some ResizeCheck"
  shows "resize_checks (menu_clearTimeout (Some t) m) = []"
proof -
  from assms(2) obtain x where
    x: "find (\<lambda>(i, ms, cb). i = t) (menu_timers m) = Some x" "snd (snd x) = ResizeCheck"
    by (auto simp add: pending_callback_def)
  from x(1) have "x \<in> set (menu_timers m)" "fst x = t"
    by (auto simp add: find_Some_iff dest: nth_mem)
  with x(2) have "(t, fst (snd x), ResizeCheck) \<in> set (menu_timers m)"
    by (metis prod.collapse)
  with assms(1) have "resizeTimer m = Some t" by (auto simp add: menu_inv_def)
  with assms(1) show ?thesis
    by (auto simp add: resize_checks_def menu_clearTimeout_def menu_inv_def filter_empty_conv)
qed

lemma found_open: "menu_found m \<Longrightarrow> returns (openMenu m) \<and> menu_found (state_of (openMenu m))"
  by (auto simp add: menu_found_def openMenu_def Let_def menu_defs)

lemma found_close: "menu_found m \<Longrightarrow> returns (closeMenu m) \<and> menu_found (state_of (closeMenu m))"
  by (auto simp add: menu_found_def closeMenu_def Let_def menu_defs)

lemma found_handle: "menu_found m \<Longrightarrow> menu_found (menu_handle ev m)"
proof (cases ev)
  case ClickToggle
  assume f: "menu_found m"
  with ClickToggle show ?thesis
    by (simp add: menu_handle_def toggleMenu_def found_open found_close)
next
  case ClickLink
  assume f: "menu_found m"
  from f obtain m' where c: "closeMenu m = Normal m'" "menu_found m'"
    using found_close [of m] by (cases "closeMenu m") simp_all
  have "menu_found (state_of (and_then (linkClicked m) (documentClicked True)))"
    using f c by (simp add: linkClicked_def documentClicked_def)
  with f ClickLink show ?thesis by (simp add: menu_handle_def)
next
  case ClickOutside
  assume f: "menu_found m"
  with ClickOutside show ?thesis
    by (simp add: menu_handle_def documentClicked_def found_close)
next
  case (Resize w)
  assume f: "menu_found m"
  with Resize show ?thesis
    by (simp add: menu_handle_def Let_def resized_def menu_found_def menu_defs)
next
  case KeyEscape
  assume f: "menu_found m"
  from f obtain m' where c: "closeMenu m = Normal m'" "menu_found m'"
    using found_close [of m] by (cases "closeMenu m") simp_all
  have "menu_found (state_of (escapePressed m))"
    using f c by (simp add: escapePressed_def menu_found_def)
  with f KeyEscape show ?thesis by (simp add: menu_handle_def)
next
  case (TimerFires t)
  assume f: "menu_found m"
  then have c: "menu_found (menu_clearTimeout (Some t) m)"
    by (simp add: menu_found_def menu_defs)
  from c obtain m' where c': "closeMenu (menu_clearTimeout (Some t) m) = Normal m'" "menu_found m'"
    using found_close [of "menu_clearTimeout (Some t) m"]
    by (cases "closeMenu (menu_clearTimeout (Some t) m)") simp_all
  have "menu_found (state_of (run_callback cb (menu_clearTimeout (Some t) m)))" for cb
    using c c'
    by (cases cb) (simp_all add: run_callback_def resizeCheck_def menu_found_def menu_log_def)
  with f TimerFires show ?thesis
    by (simp add: menu_handle_def split: option.splits)
qed

lemma found_run: "menu_found m \<Longrightarrow> menu_found (menu_run evs m)"
  by (induction evs arbitrary: m) (simp_all add: found_handle)

lemma found_new: "menu_found (ResponsiveMenu_new (Some btn) (Some nav) bd links w)"
  by (simp add: ResponsiveMenu_new_def menu_found_def Let_def menu_defs)

lemma listening_new: "listening (ResponsiveMenu_new (Some btn) (Some nav) bd links w)"
  by (simp add: ResponsiveMenu_new_def Let_def menu_defs)


lemma sync_open: "menu_found m \<Longrightarrow> menu_in_sync (state_of (openMenu m))"
  using openMenu_sync [of m] by (auto simp add: menu_found_def)

lemma sync_close: "menu_found m \<Longrightarrow> menu_in_sync (state_of (closeMenu m))"
  using closeMenu_sync [of m] by (auto simp add: menu_found_def)

lemma sync_fields:
  "menu_in_sync (m\<lparr>innerWidth := w\<rparr>) = menu_in_sync m"
  "menu_in_sync (m\<lparr>activeElement := f\<rparr>) = menu_in_sync m"
  "menu_in_sync (m\<lparr>menu_timers := ts\<rparr>) = menu_in_sync m"
  "menu_in_sync (menu_log msg m) = menu_in_sync m"
  "menu_in_sync (menu_clearTimeout t m) = menu_in_sync m"
  "menu_in_sync (resized m) = menu_in_sync m"
  by (simp_all add: menu_in_sync_def menu_log_def menu_clearTimeout_def resized_def
      menu_setTimeout_def Let_def split: option.splits)

lemma found_fields:
  "menu_found (m\<lparr>innerWidth := w\<rparr>) = menu_found m"
  "menu_found (menu_clearTimeout t m) = menu_found m"
  by (simp_all add: menu_found_def menu_clearTimeout_def)

lemma sync_close_then:
  "menu_found m \<Longrightarrow> menu_in_sync (state_of (and_then (closeMenu m) (\<lambda>m'. Normal (f m')))) =
     menu_in_sync (f (state_of (closeMenu m)))"
  using found_close [of m] by (cases "closeMenu m") simp_all

lemma sync_handle:
  assumes f: "menu_found m" and s: "menu_in_sync m"
  shows "menu_in_sync (menu_handle ev m)"
proof (cases ev)
  case ClickToggle
  with f s show ?thesis by (simp add: menu_handle_def toggleMenu_def sync_open sync_close)
next
  case ClickLink
  from f obtain m' where c: "closeMenu m = Normal m'"
    using found_close [of m] by (cases "closeMenu m") simp_all
  with sync_close [OF f] have "menu_in_sync m'" by simp
  with ClickLink f s c show ?thesis
    by (simp add: menu_handle_def linkClicked_def documentClicked_def sync_close)
next
  case ClickOutside
  with f s show ?thesis by (simp add: menu_handle_def documentClicked_def sync_close)
next
  case (Resize w)
  with s show ?thesis by (simp add: menu_handle_def Let_def sync_fields)
next
  case KeyEscape
  with f s sync_close [OF f] show ?thesis
    by (simp add: menu_handle_def escapePressed_def sync_close_then sync_fields)
next
  case (TimerFires t)
  let ?c = "menu_clearTimeout (Some t) m"
  have fc: "menu_found ?c" and sc: "menu_in_sync ?c" using f s by (simp_all add: found_fields sync_fields)
  have "menu_in_sync (state_of (run_callback cb ?c))" for cb
    using fc sc sync_close [OF fc]
    by (cases cb) (simp_all add: run_callback_def resizeCheck_def sync_close_then sync_fields)
  with s TimerFires show ?thesis by (simp add: menu_handle_def split: option.splits)
qed

lemma sync_run: "menu_found m \<Longrightarrow> menu_in_sync m \<Longrightarrow> menu_in_sync (menu_run evs m)"
  by (induction evs arbitrary: m) (simp_all add: sync_handle found_handle)

text \<open>
  Claim C4. On a menu whose two elements were found, each of \<open>openMenu\<close>, \<open>closeMenu\<close> and
  \<open>toggleMenu\<close> returns and leaves the flag and the DOM in step: \<open>isOpen\<close> holds exactly
  when \<open>navMenu\<close> has the class \<open>active\<close>, exactly when the body has the class
  \<open>menu-open\<close>, exactly when \<open>aria-expanded\<close> of the button is \<open>true\<close>, and exactly when
  the overflow of the body is \<open>hidden\<close>. Opening sets the flag, closing clears it and
  toggling inverts it; and whatever clicks, resizes, keys and timeouts follow, the flag
  and the DOM stay in step.
\<close>
theorem menu_state_synchronised:
  assumes "menuToggle m = Some btn" and "navMenu m = Some nav"
  shows "(returns (openMenu m) \<and> isOpen (state_of (openMenu m)) \<and>
            menu_in_sync (state_of (openMenu m))) \<and>
         (returns (closeMenu m) \<and> \<not> isOpen (state_of (closeMenu m)) \<and>
            menu_in_sync (state_of (closeMenu m))) \<and>
         (returns (toggleMenu m) \<and> isOpen (state_of (toggleMenu m)) = (\<not> isOpen m) \<and>
            menu_in_sync (state_of (toggleMenu m))) \<and>
         menu_in_sync (menu_run evs (state_of (openMenu m))) \<and>
         menu_in_sync (menu_run evs (state_of (closeMenu m))) \<and>
         menu_in_sync (menu_run evs (state_of (toggleMenu m)))"
proof -
  have f: "menu_found m" using assms by (simp add: menu_found_def)
  note o = openMenu_sync [OF assms] and c = closeMenu_sync [OF assms]
  have "menu_in_sync (menu_run evs (state_of (openMenu m)))"
    using o found_open [OF f] by (simp add: sync_run)
  moreover have "menu_in_sync (menu_run evs (state_of (closeMenu m)))"
    using c found_close [OF f] by (simp add: sync_run)
  ultimately show ?thesis using o c by (simp add: toggleMenu_def)
qed

theorem menu_state_synchronised_witness:
  "menuToggle example_menu = Some (createElement ''button'') \<and>
   navMenu example_menu = Some (createElement ''ul'') \<and>
   menu_in_sync (state_of (openMenu example_menu)) \<and>
   menu_in_sync (state_of (closeMenu example_menu)) \<and>
   isOpen (state_of (toggleMenu example_menu)) \<and>
   menu_in_sync (menu_run [Resize 1200, TimerFires 1, ClickToggle, KeyEscape]
                   (state_of (openMenu example_menu)))"
proof -
  have h: "menuToggle example_menu = Some (createElement ''button'')"
          "navMenu example_menu = Some (createElement ''ul'')"
          "\<not> isOpen example_menu"
    by (simp_all add: example_menu_def ResponsiveMenu_new_def Let_def menu_defs)
  from menu_state_synchronised [OF h(1) h(2), of "[Resize 1200, TimerFires 1, ClickToggle, KeyEscape]"] h
  show ?thesis by (simp del: menu_run.simps)
qed

text \<open>
  Claim C7. On a menu reached by any events from a constructor that found both elements,
  a resize event removes every pending close-on-desktop check, keeps the other timeouts,
  and schedules one new check with a delay of 150 ms, which \<open>resizeTimer\<close> remembers: so
  after a resize exactly one check is pending, however many resizes came before it. When
  a pending check fires, the menu is closed (and the closing logged) exactly when the
  window is at least 1024 pixels wide and the menu is open, otherwise nothing changes but
  the timeout being spent; afterwards no check is pending until the next resize. Time is
  the order of the events and the delay passed to \<open>setTimeout\<close>.
\<close>
theorem resize_debounced:
  assumes m: "m = menu_run evs (ResponsiveMenu_new (Some btn) (Some nav) bd links w)"
  shows "menu_timers (menu_handle (Resize w') m) =
           filter (\<lambda>(i, ms, cb). cb \<noteq> ResizeCheck) (menu_timers m) @
           [(menu_nextTimer m, 150, ResizeCheck)] \<and>
         resizeTimer (menu_handle (Resize w') m) = Some (menu_nextTimer m) \<and>
         resize_checks (menu_handle (Resize w') m) = [(menu_nextTimer m, 150, ResizeCheck)] \<and>
         (pending_callback t m = Some ResizeCheck \<longrightarrow>
            menu_handle (TimerFires t) m =
              (if 1024 \<le> innerWidth m \<and> isOpen m
               then menu_log ''Menu cerrado por cambio a vista desktop''
                      (state_of (closeMenu (menu_clearTimeout (Some t) m)))
               else menu_clearTimeout (Some t) m) \<and>
            resize_checks (menu_handle (TimerFires t) m) = [])"
proof -
  have inv: "menu_inv m" and fnd: "menu_found m" and lst: "listening m"
    unfolding m by (simp_all add: inv_run inv_new found_run found_new listening_run listening_new)
  let ?r = "m\<lparr>innerWidth := w'\<rparr>"
  have invr: "menu_inv ?r" using inv by (simp add: menu_inv_def)
  have h: "menu_handle (Resize w') m = resized ?r"
    using lst by (simp add: menu_handle_def)
  have a: "menu_timers (menu_handle (Resize w') m) =
           filter (\<lambda>(i, ms, cb). cb \<noteq> ResizeCheck) (menu_timers m) @
           [(menu_nextTimer m, 150, ResizeCheck)]"
    using resized_timers [OF invr] h by simp
  have b: "resizeTimer (menu_handle (Resize w') m) = Some (menu_nextTimer m)"
    by (simp add: h resized_def Let_def menu_defs)
  have c: "resize_checks (menu_handle (Resize w') m) = [(menu_nextTimer m, 150, ResizeCheck)]"
    by (auto simp add: resize_checks_def a filter_empty_conv)
  have d: "menu_handle (TimerFires t) m =
              (if 1024 \<le> innerWidth m \<and> isOpen m
               then menu_log ''Menu cerrado por cambio a vista desktop''
                      (state_of (closeMenu (menu_clearTimeout (Some t) m)))
               else menu_clearTimeout (Some t) m) \<and>
            resize_checks (menu_handle (TimerFires t) m) = []"
    if p: "pending_callback t m = Some ResizeCheck"
  proof -
    let ?c = "menu_clearTimeout (Some t) m"
    have fc: "menu_found ?c" using fnd by (simp add: menu_found_def menu_defs)
    have bp: "desktopBreakpoint ?c = 1024" "innerWidth ?c = innerWidth m" "isOpen ?c = isOpen m"
      using inv by (simp_all add: menu_inv_def menu_defs)
    from fc obtain m' where cn: "closeMenu ?c = Normal m'"
      using found_close [of ?c] by (cases "closeMenu ?c") simp_all
    have e: "menu_handle (TimerFires t) m =
              (if 1024 \<le> innerWidth m \<and> isOpen m
               then menu_log ''Menu cerrado por cambio a vista desktop'' (state_of (closeMenu ?c))
               else ?c)"
      using p cn bp
      by (simp add: menu_handle_def run_callback_def resizeCheck_def)
    have "resize_checks (state_of (closeMenu ?c)) = resize_checks ?c"
      by (simp add: closeMenu_def resize_checks_def Let_def menu_defs split: option.splits)
    then have "resize_checks (menu_handle (TimerFires t) m) = resize_checks ?c"
      by (simp add: e resize_checks_def menu_log_def)
    with fired_check [OF inv p] e show ?thesis by simp
  qed
  from a b c d show ?thesis by blast
qed

lemma example_state:
  "example_resized =
     \<lparr>menuToggle = Some (setAttribute ''aria-label'' label_cerrar
                          (setAttribute ''aria-expanded'' ''true'' (createElement ''button''))),
      navMenu = Some (classList_add ''active'' (createElement ''ul'')),
      body = setStyle ''overflow'' ''hidden'' (classList_add ''menu-open'' (createElement ''body'')),
      isOpen = True, desktopBreakpoint = 1024, resizeTimer = Some 1, listening = True,
      navLinks = 3, innerWidth = 1200, activeElement = None,
      menu_timers = [(0, 100, FocusFirstLink), (1, 150, ResizeCheck)],
      menu_nextTimer = 2,
      menu_console = [ConsoleLog ''ResponsiveMenu inicializado correctamente'',
                      ConsoleLog ''Menu abierto'']\<rparr>"
  by (simp add: example_resized_def example_menu_def ResponsiveMenu_new_def menu_handle_def
     toggleMenu_def openMenu_def resized_def Let_def menu_defs)

theorem resize_debounced_witness:
  "pending_callback 1 example_resized = Some ResizeCheck \<and>
   resize_checks (menu_handle (Resize 900) example_resized) = [(2, 150, ResizeCheck)] \<and>
   resize_checks (menu_handle (TimerFires 1) example_resized) = [] \<and>
   \<not> isOpen (menu_handle (TimerFires 1) example_resized)"
proof -
  have p: "pending_callback 1 example_resized = Some ResizeCheck"
    unfolding example_state by (simp add: pending_callback_def)
  have w: "1024 \<le> innerWidth example_resized \<and> isOpen example_resized"
          "menu_nextTimer example_resized = 2"
    unfolding example_state by simp_all
  have c: "\<not> isOpen (menu_log msg (state_of (closeMenu s)))" for s msg
    by (simp add: closeMenu_def Let_def menu_defs split: option.splits)
  have e: "example_resized =
             menu_run [ClickToggle, Resize 1200]
               (ResponsiveMenu_new (Some (createElement ''button'')) (Some (createElement ''ul''))
                  (createElement ''body'') 3 800)"
    by (simp only: example_resized_def example_menu_def)
  note T = resize_debounced [OF e, of 900 1]
  from T w(2) have t1: "resize_checks (menu_handle (Resize 900) example_resized) = [(2, 150, ResizeCheck)]"
    by simp
  from T p have t2: "resize_checks (menu_handle (TimerFires 1) example_resized) = []"
    by blast
  from T p have "menu_handle (TimerFires 1) example_resized =
      (if 1024 \<le> innerWidth example_resized \<and> isOpen example_resized
       then menu_log ''Menu cerrado por cambio a vista desktop''
              (state_of (closeMenu (menu_clearTimeout (Some 1) example_resized)))
       else menu_clearTimeout (Some 1) example_resized)"
    by blast
  with w(1) have "menu_handle (TimerFires 1) example_resized =
      menu_log ''Menu cerrado por cambio a vista desktop''
        (state_of (closeMenu (menu_clearTimeout (Some 1) example_resized)))"
    by (simp only: simp_thms if_True)
  with c have t3: "\<not> isOpen (menu_handle (TimerFires 1) example_resized)"
    by (simp only: not_False_eq_True)
  from p t1 t2 t3 show ?thesis by blast
qed


section \<open>ThemeToggle: storage, toggling, validation\<close>

lemmas theme_defs = theme_log_def theme_warn_def theme_error_def getItem_def setItem_def
  removeItem_def getCurrentTheme_def updateMetaThemeColor_def updateAriaAttributes_def
  dispatchThemeChangeEvent_def LIGHT_def DARK_def truthy_def

lemma only_refl: "only_theme_key t t"
  by (simp add: only_theme_key_def)

lemma only_trans: "only_theme_key t t' \<Longrightarrow> only_theme_key t' t'' \<Longrightarrow> only_theme_key t t''"
proof -
  assume a: "only_theme_key t t'" and b: "only_theme_key t' t''"
  from a obtain ws where ws: "storageWrites t' = storageWrites t @ ws"
    "\<forall>w \<in> set ws. write_key w = ''theme''"
    unfolding only_theme_key_def by (metis append_take_drop_id)
  from b obtain vs where vs: "storageWrites t'' = storageWrites t' @ vs"
    "\<forall>w \<in> set vs. write_key w = ''theme''"
    unfolding only_theme_key_def by (metis append_take_drop_id)
  from a b have "\<forall>k. k \<noteq> ''theme'' \<longrightarrow> localStorage t'' k = localStorage t k"
    by (simp add: only_theme_key_def)
  with ws vs show ?thesis by (auto simp add: only_theme_key_def)
qed

lemma only_same: "localStorage t' = localStorage t \<Longrightarrow> storageWrites t' = storageWrites t \<Longrightarrow> only_theme_key t t'"
  by (simp add: only_theme_key_def)

lemma only_and_then:
  assumes "only_theme_key t (state_of c)" "\<And>s. only_theme_key s (state_of (f s))"
  shows "only_theme_key t (state_of (and_then c f))"
proof (cases c)
  case (Normal s)
  with assms(1) have "only_theme_key t s" by simp
  with assms(2) [of s] Normal show ?thesis by (auto intro: only_trans)
next
  case (Throws s)
  with assms(1) show ?thesis by simp
qed

lemma only_Normal: "only_theme_key s s' \<Longrightarrow> only_theme_key s (state_of (Normal s'))"
  by simp

lemma storage_updateMeta:
  "localStorage (updateMetaThemeColor th t) = localStorage t"
  "storageWrites (updateMetaThemeColor th t) = storageWrites t"
  by (simp_all add: updateMetaThemeColor_def Let_def split: option.splits)

lemma storage_updateAria:
  "localStorage (state_of (updateAriaAttributes t)) = localStorage t"
  "storageWrites (state_of (updateAriaAttributes t)) = storageWrites t"
  by (simp_all add: updateAriaAttributes_def Let_def split: option.splits)

lemma only_setItem: "only_theme_key t (setItem ''theme'' v t)"
  by (simp add: only_theme_key_def setItem_def)

lemma only_setTheme: "only_theme_key t (state_of (setTheme theme save t))"
proof (cases "theme \<noteq> JString LIGHT \<and> theme \<noteq> JString DARK")
  case True
  then show ?thesis by (simp add: setTheme_def theme_error_def only_theme_key_def)
next
  case False
  define th where "th = js_toString theme"
  define t1 where "t1 = t\<lparr>htmlElement := setAttribute ''data-theme'' th (htmlElement t)\<rparr>"
  define t2 where "t2 = (if save then setItem ''theme'' th t1 else t1)"
  define t3 where "t3 = updateMetaThemeColor th t2"
  have a: "only_theme_key t t1" by (simp add: t1_def only_theme_key_def)
  have b: "only_theme_key t1 t2" by (simp add: t2_def only_setItem only_refl)
  have c: "only_theme_key t2 t3" by (simp add: t3_def only_same storage_updateMeta)
  have d: "only_theme_key t3 (state_of (and_then (updateAriaAttributes t3)
             (\<lambda>t4. Normal (dispatchThemeChangeEvent th t4))))"
    by (intro only_and_then only_Normal only_same)
       (simp_all add: storage_updateAria dispatchThemeChangeEvent_def)
  have "setTheme theme save t = and_then (updateAriaAttributes t3)
             (\<lambda>t4. Normal (dispatchThemeChangeEvent th t4))"
    using False by (auto simp add: setTheme_def Let_def th_def t1_def t2_def t3_def)
  with a b c d show ?thesis by (metis only_trans)
qed

lemma only_animate: "only_theme_key t (state_of (animateButton t))"
  by (auto simp add: animateButton_def only_theme_key_def split: option.splits)

lemma only_toggleTheme: "only_theme_key t (state_of (toggleTheme t))"
  unfolding toggleTheme_def Let_def
  by (intro only_and_then only_setTheme only_animate only_Normal only_same)
     (simp_all add: theme_log_def)

lemma only_reset: "only_theme_key t (state_of (resetToSystemPreference t))"
proof -
  have r: "only_theme_key t (removeItem ''theme'' t)"
    by (simp add: only_theme_key_def removeItem_def)
  show ?thesis
  proof (cases "prefersDark t")
    case None
    with r show ?thesis by (simp add: resetToSystemPreference_def Let_def removeItem_def)
  next
    case (Some d)
    have "only_theme_key (removeItem ''theme'' t)
            (state_of (and_then (setTheme (JString (if d then DARK else LIGHT)) False (removeItem ''theme'' t))
               (\<lambda>t2. Normal (theme_log (''Tema reseteado a preferencia del sistema: '' @ (if d then DARK else LIGHT)) t2))))"
      by (intro only_and_then only_setTheme only_Normal only_same) (simp_all add: theme_log_def)
    with r Some show ?thesis
      by (auto simp add: resetToSystemPreference_def Let_def removeItem_def intro: only_trans)
  qed
qed

lemma only_requested: "only_theme_key t (state_of (setThemeRequested detail t))"
  by (simp add: setThemeRequested_def only_setTheme only_refl split: option.splits)

lemma only_pref: "only_theme_key t (state_of (systemPreferenceChanged matches t))"
proof (cases "truthy (getItem ''theme'' t)")
  case True
  then show ?thesis by (simp add: systemPreferenceChanged_def only_refl)
next
  case False
  have "only_theme_key t (state_of (and_then (setTheme (JString th) True t)
           (\<lambda>t1. Normal (theme_log msg t1))))" for th msg
    by (intro only_and_then only_setTheme only_Normal only_same) (simp_all add: theme_log_def)
  with False show ?thesis by (simp add: systemPreferenceChanged_def Let_def)
qed

lemma only_callback: "only_theme_key t (state_of (run_theme_callback cb t))"
  by (cases cb) (auto simp add: run_theme_callback_def only_theme_key_def split: option.splits)

lemma only_perform: "only_theme_key t (theme_perform op t)"
proof (cases op)
  case (PreferenceChanged matches)
  let ?t1 = "t\<lparr>prefersDark := map_option (\<lambda>d. matches) (prefersDark t)\<rparr>"
  have a: "only_theme_key t ?t1" by (simp add: only_theme_key_def)
  from only_trans [OF a only_pref [of ?t1 matches]] a PreferenceChanged
  show ?thesis by (simp add: theme_perform_def Let_def)
next
  case (TimeoutFires i)
  let ?t1 = "t\<lparr>theme_timers := take i (theme_timers t) @ drop (Suc i) (theme_timers t)\<rparr>"
  have a: "only_theme_key t ?t1" by (simp add: only_theme_key_def)
  from only_trans [OF a only_callback [of ?t1]] TimeoutFires
  show ?thesis by (simp add: theme_perform_def only_refl)
next
  case FrameFires
  then show ?thesis
    by (auto simp add: theme_perform_def run_frame_def only_theme_key_def
        split: list.splits frame_callback.splits)
qed (simp_all add: theme_perform_def only_refl only_toggleTheme only_requested only_setTheme
       only_reset setThemePublic_def destroy_theme_def theme_log_def only_same)

lemma only_run: "only_theme_key t (theme_run ops t)"
proof (induction ops arbitrary: t)
  case Nil
  show ?case by (simp add: only_refl)
next
  case (Cons op ops)
  from only_trans [OF only_perform [of t op] Cons.IH [of "theme_perform op t"]]
  show ?case by simp
qed



lemma setTheme_valid:
  assumes "th = LIGHT \<or> th = DARK"
  shows "setTheme (JString th) save t =
           and_then (updateAriaAttributes
                      (updateMetaThemeColor th
                        (if save
                         then setItem ''theme'' th
                                (t\<lparr>htmlElement := setAttribute ''data-theme'' th (htmlElement t)\<rparr>)
                         else t\<lparr>htmlElement := setAttribute ''data-theme'' th (htmlElement t)\<rparr>)))
             (\<lambda>t4. Normal (dispatchThemeChangeEvent th t4))"
  using assms by (auto simp add: setTheme_def Let_def)



lemma writes_setTheme_unsaved:
  assumes "th = LIGHT \<or> th = DARK"
  shows "storageWrites (state_of (setTheme (JString th) False t)) = storageWrites t"
proof -
  define t3 where
    "t3 = updateMetaThemeColor th (t\<lparr>htmlElement := setAttribute ''data-theme'' th (htmlElement t)\<rparr>)"
  have "setTheme (JString th) False t =
          and_then (updateAriaAttributes t3) (\<lambda>t4. Normal (dispatchThemeChangeEvent th t4))"
    by (simp add: setTheme_valid [OF assms] t3_def)
  then have "storageWrites (state_of (setTheme (JString th) False t)) = storageWrites t3"
    by (simp add: and_then_state storage_updateAria dispatchThemeChangeEvent_def)
  then show ?thesis by (simp add: t3_def storage_updateMeta)
qed

lemma writes_reset:
  "storageWrites (state_of (resetToSystemPreference t)) = storageWrites t @ [RemoveItem ''theme'']"
proof (cases "prefersDark t")
  case None
  then show ?thesis by (simp add: resetToSystemPreference_def Let_def removeItem_def)
next
  case (Some d)
  define th where "th = (if d then DARK else LIGHT)"
  define r where "r = removeItem ''theme'' t"
  have p: "prefersDark r = Some d" using Some by (simp add: r_def removeItem_def)
  have "storageWrites (state_of (setTheme (JString th) False r)) = storageWrites r"
    by (rule writes_setTheme_unsaved) (simp add: th_def)
  then have "storageWrites (state_of (and_then (setTheme (JString th) False r)
               (\<lambda>t2. Normal (theme_log msg t2)))) = storageWrites r" for msg
    by (simp add: and_then_state theme_log_def)
  moreover have "resetToSystemPreference t = and_then (setTheme (JString th) False r)
      (\<lambda>t2. Normal (theme_log (''Tema reseteado a preferencia del sistema: '' @ th) t2))"
    using p by (simp add: resetToSystemPreference_def Let_def r_def [symmetric] th_def)
  ultimately show ?thesis by (simp add: r_def removeItem_def)
qed

lemma example_toggled_writes:
  "storageWrites (state_of (toggleTheme example_theme)) = [SetItem ''theme'' ''dark'']"
  by (simp add: example_theme_def toggleTheme_def animateButton_def setTheme_def Let_def
      theme_defs dom_defs createElement_def)

lemma example_theme_writes:
  "storageWrites (theme_run [ButtonClicked, CallResetToSystemPreference] example_theme) =
     [SetItem ''theme'' ''dark'', RemoveItem ''theme'']"
proof -
  have "theme_listening example_theme" by (simp add: example_theme_def)
  then show ?thesis
    by (simp add: theme_perform_def writes_reset example_toggled_writes)
qed

lemma untouched_setTheme_unsaved:
  "localStorage (state_of (setTheme theme False t)) = localStorage t \<and>
   storageWrites (state_of (setTheme theme False t)) = storageWrites t"
proof (cases "theme \<noteq> JString LIGHT \<and> theme \<noteq> JString DARK")
  case True
  then show ?thesis by (simp add: setTheme_def theme_error_def)
next
  case False
  then obtain th where th: "theme = JString th" "th = LIGHT \<or> th = DARK" by auto
  define t3 where
    "t3 = updateMetaThemeColor th (t\<lparr>htmlElement := setAttribute ''data-theme'' th (htmlElement t)\<rparr>)"
  have "setTheme (JString th) False t =
          and_then (updateAriaAttributes t3) (\<lambda>t4. Normal (dispatchThemeChangeEvent th t4))"
    by (simp add: setTheme_valid [OF th(2)] t3_def)
  then have "localStorage (state_of (setTheme (JString th) False t)) = localStorage t3 \<and>
             storageWrites (state_of (setTheme (JString th) False t)) = storageWrites t3"
    by (simp add: and_then_state storage_updateAria dispatchThemeChangeEvent_def)
  then show ?thesis by (simp add: th(1) t3_def storage_updateMeta)
qed

lemma constructor_writes_nothing:
  "localStorage (state_of (ThemeToggle_new button html meta storage prefers now)) = storage \<and>
   storageWrites (state_of (ThemeToggle_new button html meta storage prefers now)) = []"
proof (cases button)
  case None
  then show ?thesis by (simp add: ThemeToggle_new_def Let_def theme_warn_def)
next
  case (Some btn)
  define t where "t = \<lparr>toggleButton = button, htmlElement = html, metaThemeColor = meta,
               metaCreated = False, localStorage = storage, storageWrites = [],
               prefersDark = prefers, theme_events = [], clock = now, theme_timers = [],
               theme_frames = [], theme_listening = False, watching = False,
               theme_console = []\<rparr>"
  define same where "same = (\<lambda>c :: theme_toggle completion. localStorage (state_of c) = storage \<and>
                                 storageWrites (state_of c) = ([] :: storage_write list))"
  have step: "same (and_then c f)"
    if "same c" "\<And>s. localStorage s = storage \<Longrightarrow> storageWrites s = [] \<Longrightarrow> same (f s)"
    for c f
    using that by (cases c) (simp_all add: same_def)
  have a: "same (applyThemeWithoutTransition th s)"
    if "localStorage s = storage" "storageWrites s = []" for th s
  proof -
    let ?s1 = "s\<lparr>htmlElement := classList_add ''theme-transition-disabled'' (htmlElement s)\<rparr>"
    have "same (setTheme (JString th) False ?s1)"
      using untouched_setTheme_unsaved [of "JString th" ?s1] that by (simp add: same_def)
    then show ?thesis
      unfolding applyThemeWithoutTransition_def Let_def
      by (rule step) (simp add: same_def)
  qed
  have b: "same (setupEventListeners s)"
    if "localStorage s = storage" "storageWrites s = []" for s
    using that by (simp add: setupEventListeners_def same_def split: option.splits)
  have c: "same (updateAriaAttributes (watchSystemPreference s))"
    if "localStorage s = storage" "storageWrites s = []" for s
    using that
    by (simp add: same_def storage_updateAria watchSystemPreference_def split: option.splits)
  have i: "same (initialize t)"
    unfolding initialize_def Let_def
    apply (rule step)
     apply (rule a; simp add: t_def)
    apply (rule step)
     apply (rule b; assumption)
    apply (rule step)
     apply (rule c; assumption)
    apply (simp add: same_def theme_log_def)
    done
  have "same (and_then (initialize t)
                (\<lambda>t1. Normal (theme_log ''ThemeToggle: Inicializado correctamente'' t1)))"
    using i by (rule step) (simp add: same_def theme_log_def)
  moreover have "ThemeToggle_new button html meta storage prefers now =
      and_then (initialize t)
        (\<lambda>t1. Normal (theme_log ''ThemeToggle: Inicializado correctamente'' t1))"
    using Some by (simp add: ThemeToggle_new_def Let_def t_def)
  ultimately show ?thesis by (simp only: same_def)
qed














text \<open>
  Claim C2. Whatever sequence of clicks, shortcuts, custom events, preference changes,
  public calls, frames and timeouts reaches the theme component, in whatever state: every
  key of the storage other than \<open>theme\<close> keeps its value, the writes already made stay,
  and every write added (\<open>setItem\<close> or \<open>removeItem\<close>) has the key \<open>theme\<close>. The constructor
  writes nothing. (The theme component is the only code of the repository that writes to
  the storage; the orchestrator reads the key \<open>theme\<close>, and the menu and the image loader
  never touch the storage.)
\<close>
theorem storage_key_theme_only:
  "(\<forall>k. k \<noteq> ''theme'' \<longrightarrow> localStorage (theme_run ops t) k = localStorage t k) \<and>
   take (length (storageWrites t)) (storageWrites (theme_run ops t)) = storageWrites t \<and>
   (\<forall>w \<in> set (drop (length (storageWrites t)) (storageWrites (theme_run ops t))).
      write_key w = ''theme'') \<and>
   localStorage (state_of (ThemeToggle_new button html meta storage prefers now)) = storage \<and>
   storageWrites (state_of (ThemeToggle_new button html meta storage prefers now)) = []"
  using only_run [of t ops] constructor_writes_nothing [of button html meta storage prefers now]
  by (simp add: only_theme_key_def)

theorem storage_key_theme_only_witness:
  "''lang'' \<noteq> ''theme'' \<and>
   localStorage (theme_run [ButtonClicked, CallResetToSystemPreference] example_theme) ''lang'' =
     Some ''es'' \<and>
   storageWrites (theme_run [ButtonClicked, CallResetToSystemPreference] example_theme) =
     [SetItem ''theme'' ''dark'', RemoveItem ''theme''] \<and>
   write_key (SetItem ''theme'' ''dark'') = ''theme'' \<and>
   write_key (RemoveItem ''theme'') = ''theme''"
proof -
  have n: "''lang'' \<noteq> ''theme''" by simp
  have l: "localStorage example_theme ''lang'' = Some ''es''" "storageWrites example_theme = []"
    by (simp_all add: example_theme_def)
  note T = storage_key_theme_only [of "[ButtonClicked, CallResetToSystemPreference]" example_theme
      None "createElement ''html''" None Map.empty None 0]
  from T [THEN conjunct1, rule_format, OF n] l(1)
  have a: "localStorage (theme_run [ButtonClicked, CallResetToSystemPreference] example_theme) ''lang'' = Some ''es''"
    by (rule trans)
  from T [THEN conjunct2, THEN conjunct2, THEN conjunct1]
  have b: "\<forall>w \<in> set [SetItem ''theme'' ''dark'', RemoveItem ''theme'']. write_key w = ''theme''"
    by (simp only: l example_theme_writes list.size drop_0)
  from b have c: "write_key (SetItem ''theme'' ''dark'') = ''theme''"
    by (rule bspec) simp
  from b have d: "write_key (RemoveItem ''theme'') = ''theme''"
    by (rule bspec) simp
  show ?thesis
    by (intro conjI n a c d example_theme_writes)
qed



text \<open>
  Claim C9. For every argument other than the strings \<open>light\<close> and \<open>dark\<close>, \<open>setTheme\<close>
  returns the state it was given with one error added to the console: the \<open>data-theme\<close>
  attribute and the rest of the document element, the storage and its writes, the meta
  tag, the toggle button with its ARIA attributes, and the events dispatched are the same.
\<close>
theorem setTheme_rejects_invalid:
  assumes "theme \<noteq> JString ''light''" and "theme \<noteq> JString ''dark''"
  shows "setTheme theme save t =
           Normal (t\<lparr>theme_console := theme_console t @
                       [ConsoleError (''Tema invalido: '' @ js_toString theme)]\<rparr>) \<and>
         htmlElement (state_of (setTheme theme save t)) = htmlElement t \<and>
         localStorage (state_of (setTheme theme save t)) = localStorage t \<and>
         storageWrites (state_of (setTheme theme save t)) = storageWrites t \<and>
         metaThemeColor (state_of (setTheme theme save t)) = metaThemeColor t \<and>
         toggleButton (state_of (setTheme theme save t)) = toggleButton t \<and>
         theme_events (state_of (setTheme theme save t)) = theme_events t"
  using assms by (simp add: setTheme_def theme_error_def LIGHT_def DARK_def)

theorem setTheme_rejects_invalid_witness:
  "JString ''blue'' \<noteq> JString ''light'' \<and> JString ''blue'' \<noteq> JString ''dark'' \<and>
   setTheme (JString ''blue'') True example_theme =
     Normal (example_theme\<lparr>theme_console := [ConsoleError ''Tema invalido: blue'']\<rparr>) \<and>
   localStorage (state_of (setTheme (JString ''blue'') True example_theme)) ''theme'' = None"
proof -
  have n: "JString ''blue'' \<noteq> JString ''light''" "JString ''blue'' \<noteq> JString ''dark''"
    by simp_all
  have c: "theme_console example_theme = []" "localStorage example_theme ''theme'' = None"
    by (simp_all add: example_theme_def)
  from setTheme_rejects_invalid [OF n, of True example_theme] n c show ?thesis by simp
qed

text \<open>
  Claim C8. \<open>getInitialTheme\<close> returns the saved theme when it is exactly \<open>light\<close> or
  \<open>dark\<close>; for any other saved value, or none, it returns \<open>dark\<close> when \<open>matchMedia\<close> exists
  and reports a dark preference, and \<open>light\<close> otherwise.
\<close>
theorem initial_theme_priority:
  "(localStorage t ''theme'' = Some ''light'' \<longrightarrow> getInitialTheme t = ''light'') \<and>
   (localStorage t ''theme'' = Some ''dark'' \<longrightarrow> getInitialTheme t = ''dark'') \<and>
   (localStorage t ''theme'' \<noteq> Some ''light'' \<and> localStorage t ''theme'' \<noteq> Some ''dark'' \<longrightarrow>
      getInitialTheme t = (if prefersDark t = Some True then ''dark'' else ''light''))"
  by (auto simp add: getInitialTheme_def getItem_def truthy_def LIGHT_def DARK_def Let_def
      split: option.splits bool.splits)

theorem initial_theme_priority_witness:
  "localStorage example_theme ''theme'' \<noteq> Some ''light'' \<and>
   localStorage example_theme ''theme'' \<noteq> Some ''dark'' \<and>
   getInitialTheme example_theme = ''dark'' \<and>
   getInitialTheme (example_theme\<lparr>localStorage := [''theme'' \<mapsto> ''light'']\<rparr>) = ''light'' \<and>
   getInitialTheme (example_theme\<lparr>localStorage := [''theme'' \<mapsto> ''dark''], prefersDark := Some False\<rparr>) = ''dark''"
proof -
  have a: "localStorage example_theme ''theme'' \<noteq> Some ''light''"
          "localStorage example_theme ''theme'' \<noteq> Some ''dark''"
          "prefersDark example_theme = Some True"
    by (simp_all add: example_theme_def)
  from initial_theme_priority [of example_theme] a
  have 1: "getInitialTheme example_theme = ''dark''" by simp
  from initial_theme_priority [of "example_theme\<lparr>localStorage := [''theme'' \<mapsto> ''light'']\<rparr>"]
  have 2: "getInitialTheme (example_theme\<lparr>localStorage := [''theme'' \<mapsto> ''light'']\<rparr>) = ''light''"
    by simp
  from initial_theme_priority [of "example_theme\<lparr>localStorage := [''theme'' \<mapsto> ''dark''], prefersDark := Some False\<rparr>"]
  have 3: "getInitialTheme (example_theme\<lparr>localStorage := [''theme'' \<mapsto> ''dark''], prefersDark := Some False\<rparr>) = ''dark''"
    by simp
  show ?thesis by (intro conjI a(1) a(2) 1 2 3)
qed


section \<open>Image loader: retries and statistics\<close>










text \<open>
  Claim C1 does not hold of the page as the orchestrator runs it. The retry counter is kept
  per image, and giving an image up removes its entry. The module initialises itself when
  it is imported, and the orchestrator, which imports it, calls \<open>initImageLoader\<close> again: two
  observers watch every lazy image, and each starts a load of it when it comes into view.
  Both failures count on the one counter, so that the third retry is scheduled while the
  second is still pending; when the load of the second fails, the image is given up and its
  entry removed while the third retry waits, and the load of that retry starts the count
  from zero. On this page, where every load of the image fails, the image is retried six
  times, with the delays 1000, 2000, 3000, 1000, 2000 and 3000 ms, and given up twice,
  where the claim allows three retries and one \<open>imageError\<close> event.
\<close>
theorem two_loads_exceed_retry_cap:
  "InitImageLoader \<in> set (app_actions (state_of (start MainJs example_home))) \<and>
   InitImageLoader \<in> set (app_actions (state_of (start MenuCommentedOut example_home))) \<and>
   observers example_started_twice = [[0], [0]] \<and>
   requests (loader_run (take 2 double_failure) example_started_twice) =
     [(0, ''obra.jpg'', None), (0, ''obra.jpg'', None)] \<and>
   loader_timers (loader_run (take 4 double_failure) example_started_twice) =
     [(1000, 0), (2000, 0)] \<and>
   loader_timers (loader_run (take 6 double_failure) example_started_twice) =
     [(2000, 0), (3000, 0)] \<and>
   retryMap (loader_run (take 6 double_failure) example_started_twice) 0 = Some 3 \<and>
   loader_timers (loader_run (take 8 double_failure) example_started_twice) = [(3000, 0)] \<and>
   loader_events (loader_run (take 8 double_failure) example_started_twice) =
     [(0, ImageError ''obra.jpg'' 3)] \<and>
   retryMap (loader_run (take 8 double_failure) example_started_twice) 0 = None \<and>
   loader_timers (loader_run (take 10 double_failure) example_started_twice) = [(1000, 0)] \<and>
   loader_timers (loader_run (take 12 double_failure) example_started_twice) = [(2000, 0)] \<and>
   loader_timers (loader_run (take 14 double_failure) example_started_twice) = [(3000, 0)] \<and>
   retry_warnings (loader_run double_failure example_started_twice) =
     [''Error cargando imagen (intento 1/3): obra.jpg'',
      ''Error cargando imagen (intento 2/3): obra.jpg'',
      ''Error cargando imagen (intento 3/3): obra.jpg'',
      ''Error cargando imagen (intento 1/3): obra.jpg'',
      ''Error cargando imagen (intento 2/3): obra.jpg'',
      ''Error cargando imagen (intento 3/3): obra.jpg''] \<and>
   loader_events (loader_run double_failure example_started_twice) =
     [(0, ImageError ''obra.jpg'' 3), (0, ImageError ''obra.jpg'' 3)] \<and>
   loader_timers (loader_run double_failure example_started_twice) = [] \<and>
   requests (loader_run double_failure example_started_twice) = []"
  by code_simp

lemma no_img_no_lazy: "select_img l = [] \<Longrightarrow> select_lazy l = []"
  by (auto simp add: select_img_def select_lazy_def is_lazy_img_def filter_empty_conv)

text \<open>
  Claim C10, as amended. In a document without \<open>img\<close> elements \<open>getLoadingStats\<close> returns
  the counts \<open>total\<close> and \<open>lazy\<close> 0; \<open>loaded\<close>, \<open>loading\<close> and \<open>errors\<close> count the elements
  of any tag that carry the classes \<open>image-loaded\<close>, \<open>image-loading\<close> and
  \<open>image-error\<close>; the percentage is \<open>NaN\<close> when no element carries \<open>image-loaded\<close> and
  \<open>Infinity\<close> otherwise. When no element carries any of the three classes, every count is
  0 and the percentage is \<open>NaN\<close>.
\<close>
theorem stats_without_images:
  assumes "select_img l = []"
  shows "total_stat (getLoadingStats round_percent l) = 0 \<and>
         lazy (getLoadingStats round_percent l) = 0 \<and>
         loaded (getLoadingStats round_percent l) = length (select_class ''image-loaded'' l) \<and>
         loading (getLoadingStats round_percent l) = length (select_class ''image-loading'' l) \<and>
         errors (getLoadingStats round_percent l) = length (select_class ''image-error'' l) \<and>
         percentage (getLoadingStats round_percent l) =
           (if select_class ''image-loaded'' l = [] then NaN else Infinity) \<and>
         (select_class ''image-loaded'' l = [] \<and> select_class ''image-loading'' l = [] \<and>
          select_class ''image-error'' l = [] \<longrightarrow>
            getLoadingStats round_percent l =
              \<lparr>total_stat = 0, lazy = 0, loaded = 0, loading = 0, errors = 0, pending = 0,
               percentage = NaN\<rparr>)"
  using assms no_img_no_lazy [OF assms]
  by (simp add: getLoadingStats_def Let_def percent_def loadedClass_def loadingClass_def
      errorClass_def)

theorem stats_without_images_witness:
  "select_img example_no_images = [] \<and>
   select_class ''image-loaded'' example_no_images = [] \<and>
   select_class ''image-loading'' example_no_images = [] \<and>
   select_class ''image-error'' example_no_images = [] \<and>
   getLoadingStats (\<lambda>n d. 0) example_no_images =
     \<lparr>total_stat = 0, lazy = 0, loaded = 0, loading = 0, errors = 0, pending = 0, percentage = NaN\<rparr>"
proof -
  have h: "select_img example_no_images = []"
    "select_class ''image-loaded'' example_no_images = [] \<and>
     select_class ''image-loading'' example_no_images = [] \<and>
     select_class ''image-error'' example_no_images = []"
    by (simp_all add: example_no_images_def select_img_def select_class_def createElement_def
        classList_contains_def)
  from stats_without_images [OF h(1), of "\<lambda>n d. 0", THEN conjunct2, THEN conjunct2,
    THEN conjunct2, THEN conjunct2, THEN conjunct2, THEN conjunct2, THEN mp, OF h(2)] h
  show ?thesis by simp
qed

text \<open>
  Claim C10 as stated fails on a page without images whose only element is a \<open>div\<close> of
  class \<open>image-loaded\<close>: the percentage is \<open>Infinity\<close>, \<open>loaded\<close> is 1 and \<open>pending\<close> is -1.
\<close>
theorem stats_infinity_without_images:
  "select_img example_marked_div = [] \<and>
   percentage (getLoadingStats (\<lambda>n d. 0) example_marked_div) \<noteq> NaN \<and>
   percentage (getLoadingStats (\<lambda>n d. 0) example_marked_div) = Infinity \<and>
   loaded (getLoadingStats (\<lambda>n d. 0) example_marked_div) = 1 \<and>
   pending (getLoadingStats (\<lambda>n d. 0) example_marked_div) = - 1"
  by (simp add: example_marked_div_def getLoadingStats_def select_img_def select_lazy_def
      select_class_def is_lazy_img_def percent_def createElement_def classList_add_def
      classList_contains_def loadedClass_def errorClass_def loadingClass_def Let_def)



section \<open>Orchestrator: wiring and initialisation errors\<close>

lemma wired_refl: "wired cp p a a"
  by (simp add: wired_def)

lemma wired_trans: "wired cp p a b \<Longrightarrow> wired cp p b c \<Longrightarrow> wired cp p a c"
  unfolding wired_def by (elim conjE) (intro conjI; (simp; fail)?; metis)

lemma wired_log: "wired cp p a b \<Longrightarrow> wired cp p a (app_log p msg b)"
  by (simp add: wired_def app_log_def)

lemma wired_act: "wired cp p a b \<Longrightarrow> wired cp p a (act x b)"
  by (simp add: wired_def act_def)

lemma wired_and_then:
  assumes "wired cp p a (state_of c)" "\<And>s. wired cp p s (state_of (f s))"
  shows "wired cp p a (state_of (and_then c f))"
proof (cases c)
  case (Normal s)
  with assms(1) have "wired cp p a s" by simp
  with assms(2) [of s] Normal show ?thesis by (auto intro: wired_trans)
next
  case (Throws s)
  with assms(1) show ?thesis by simp
qed

lemma wired_import:
  "wired cp p a (f a) \<Longrightarrow> wired cp p a (state_of (import_module p m f a))"
  by (simp add: import_module_def wired_refl)

lemma wired_core: "wired cp p a (state_of (loadCoreModules cp p a))"
proof -
  define a2 where "a2 = (if lazyLoading
                then let a' = act InitImageLoader (app_log p ''Cargando modulos core...'' a);
                         criticalImages = getCriticalImages p
                     in if 0 < length criticalImages
                        then act (PreloadCriticalImages criticalImages) a' else a'
                else app_log p ''Cargando modulos core...'' a)"
  have 1: "wired cp p a a2"
    by (simp add: a2_def Let_def wired_log wired_act wired_refl)
  have 2: "wired cp p s (state_of (if hasElement p ''themeToggle'' \<and> darkMode
            then import_module p ''./components/ThemeToggle.js''
                   (\<lambda>x. x\<lparr>themeToggle := Some ThemeToggleInstance\<rparr>) s
            else Normal s))" for s
    by (auto intro!: wired_import simp add: wired_refl) (simp add: wired_def)
  have 3: "wired cp p s (state_of (if cp = MainJs \<and> hasElement p ''menuToggle''
               then import_module p ''./components/ResponsiveMenu.js''
                      (\<lambda>x. x\<lparr>responsiveMenu := Some ResponsiveMenuInstance\<rparr>) s
               else Normal s))" for s
    by (auto intro!: wired_import simp add: wired_refl) (simp add: wired_def)
  have 4: "wired cp p s (state_of (Normal (app_log p msg s)))" for s msg
    by (simp add: wired_log wired_refl)
  have "loadCoreModules cp p a = and_then
           (if hasElement p ''themeToggle'' \<and> darkMode
            then import_module p ''./components/ThemeToggle.js''
                   (\<lambda>x. x\<lparr>themeToggle := Some ThemeToggleInstance\<rparr>) a2
            else Normal a2)
           (\<lambda>a3. and_then
              (if cp = MainJs \<and> hasElement p ''menuToggle''
               then import_module p ''./components/ResponsiveMenu.js''
                      (\<lambda>x. x\<lparr>responsiveMenu := Some ResponsiveMenuInstance\<rparr>) a3
               else Normal a3)
              (\<lambda>a4. Normal (app_log p ''Modulos core cargados'' a4)))"
    by (simp only: loadCoreModules_def Let_def a2_def)
  moreover have "wired cp p a2 (state_of (and_then
           (if hasElement p ''themeToggle'' \<and> darkMode
            then import_module p ''./components/ThemeToggle.js''
                   (\<lambda>x. x\<lparr>themeToggle := Some ThemeToggleInstance\<rparr>) a2
            else Normal a2)
           (\<lambda>a3. and_then
              (if cp = MainJs \<and> hasElement p ''menuToggle''
               then import_module p ''./components/ResponsiveMenu.js''
                      (\<lambda>x. x\<lparr>responsiveMenu := Some ResponsiveMenuInstance\<rparr>) a3
               else Normal a3)
              (\<lambda>a4. Normal (app_log p ''Modulos core cargados'' a4)))))"
    by (intro wired_and_then 2 3 4)
  ultimately show ?thesis using 1 by (auto intro: wired_trans)
qed

lemma wired_Normal: "wired cp p a b \<Longrightarrow> wired cp p a (state_of (Normal b))"
  by simp

lemma wired_portfolio:
  "currentPage a = ''portafolio'' \<Longrightarrow> wired cp p a (state_of (loadPortfolioModules p a))"
proof -
  assume pg: "currentPage a = ''portafolio''"
  define a1 where "a1 = app_log p ''Cargando modulos de Portafolio...'' a"
  have pg1: "currentPage a1 = ''portafolio''" using pg by (simp add: a1_def app_log_def)
  have 1: "wired cp p a a1" by (simp add: a1_def wired_log wired_refl)
  have 2: "wired cp p a1 (state_of (if hasElement p ''galleryGrid''
            then import_module p ''./components/Gallery.js''
                   (\<lambda>x. x\<lparr>gallery := Some GalleryInstance\<rparr>) a1
            else Normal a1))"
    using pg1 by (auto intro!: wired_import simp add: wired_refl) (simp add: wired_def)
  have 3: "wired cp p s (state_of (if hasElement p ''lightbox''
                  then import_module p ''./components/Lightbox.js''
                         (\<lambda>x. x\<lparr>lightbox := Some LightboxInstance\<rparr>) s
                  else Normal s))" if "currentPage s = ''portafolio''" for s
    using that by (auto intro!: wired_import simp add: wired_refl) (simp add: wired_def)
  have "wired cp p a1 (state_of (loadPortfolioModules p a))"
  proof (cases "if hasElement p ''galleryGrid''
            then import_module p ''./components/Gallery.js''
                   (\<lambda>x. x\<lparr>gallery := Some GalleryInstance\<rparr>) a1
            else Normal a1")
    case (Normal s)
    with 2 have w: "wired cp p a1 s" by simp
    then have "currentPage s = ''portafolio''" using pg1 by (simp add: wired_def)
    from wired_trans [OF w 3 [OF this]] Normal show ?thesis
      by (simp add: loadPortfolioModules_def Let_def a1_def [symmetric])
  next
    case (Throws s)
    with 2 show ?thesis
      by (simp add: loadPortfolioModules_def Let_def a1_def [symmetric])
  qed
  with 1 show ?thesis by (rule wired_trans)
qed

lemma wired_contact:
  "currentPage a = ''contacto'' \<Longrightarrow> wired cp p a (state_of (loadContactModules p a))"
proof -
  assume pg: "currentPage a = ''contacto''"
  define a1 where "a1 = app_log p ''Cargando modulos de Contacto...'' a"
  have pg1: "currentPage a1 = ''contacto''" using pg by (simp add: a1_def app_log_def)
  have 1: "wired cp p a a1" by (simp add: a1_def wired_log wired_refl)
  have "wired cp p a1 (state_of (if hasElement p ''contactForm''
         then import_module p ''./components/FormValidator.js''
                (\<lambda>x. x\<lparr>formValidator := Some (FormValidatorInstance ''contactForm'')\<rparr>) a1
         else Normal a1))"
    using pg1 by (auto intro!: wired_import simp add: wired_refl) (simp add: wired_def)
  then have "wired cp p a1 (state_of (loadContactModules p a))"
    by (simp add: loadContactModules_def Let_def a1_def [symmetric])
  with 1 show ?thesis by (rule wired_trans)
qed

lemma wired_page: "wired cp p a (state_of (loadPageModules p a))"
proof -
  define a1 where "a1 = app_log p (''Cargando modulos para: '' @ currentPage a) a"
  have 1: "wired cp p a a1" by (simp add: a1_def wired_log wired_refl)
  have "wired cp p a1 (state_of (loadPageModules p a))"
    unfolding loadPageModules_def Let_def a1_def [symmetric]
    by (simp add: wired_portfolio wired_contact loadHomeModules_def loadTechniquesModules_def
        loadProgressModules_def loadMaterialsModules_def Let_def wired_log wired_act wired_refl)
  with 1 show ?thesis by (rule wired_trans)
qed

lemma wired_init_body: "wired cp p a (state_of (init_body cp p a))"
proof -
  have 1: "wired cp p a (app_log p ''Inicializando AcuarelaArte App...'' a)"
    by (simp add: wired_log wired_refl)
  have 2: "wired cp p s (state_of (Normal (let a3 = applyTheme (app_theme s) (initGlobalListeners p s);
                     a4 = a3\<lparr>isInitialized := True\<rparr>;
                     a5 = app_log p (''Pagina actual: '' @ currentPage a4)
                            (if cp = MainJs
                             then app_log p ''App inicializada correctamente'' a4 else a4)
                 in a5\<lparr>app_events := app_events a5 @ [AppInitialized]\<rparr>)))" for s
    by (simp add: Let_def wired_def app_log_def applyTheme_def initGlobalListeners_def act_def)
  have "wired cp p (app_log p ''Inicializando AcuarelaArte App...'' a) (state_of (init_body cp p a))"
    unfolding init_body_def
    apply (intro wired_and_then wired_core wired_page)
    using 2 by (simp add: Let_def)
  with 1 show ?thesis by (rule wired_trans)
qed

lemma log_fields:
  "themeToggle (app_log p msg a) = themeToggle a"
  "responsiveMenu (app_log p msg a) = responsiveMenu a"
  "gallery (app_log p msg a) = gallery a"
  "lightbox (app_log p msg a) = lightbox a"
  "formValidator (app_log p msg a) = formValidator a"
  "currentPage (app_log p msg a) = currentPage a"
  "bodyPrepended (app_log p msg a) = bodyPrepended a"
  "isInitialized (app_log p msg a) = isInitialized a"
  by (simp_all add: app_log_def)

lemma act_fields:
  "themeToggle (act x a) = themeToggle a"
  "responsiveMenu (act x a) = responsiveMenu a"
  "gallery (act x a) = gallery a"
  "lightbox (act x a) = lightbox a"
  "formValidator (act x a) = formValidator a"
  "currentPage (act x a) = currentPage a"
  "bodyPrepended (act x a) = bodyPrepended a"
  "isInitialized (act x a) = isInitialized a"
  by (simp_all add: act_def)

lemma import_ok: "\<forall>m. importable p m \<Longrightarrow> import_module p m f a = Normal (f a)"
  by (simp add: import_module_def)

lemma core_ok:
  assumes "\<forall>m. importable p m"
  shows "returns (loadCoreModules cp p a)"
    and "themeToggle (state_of (loadCoreModules cp p a)) =
           (if hasElement p ''themeToggle'' then Some ThemeToggleInstance else themeToggle a)"
    and "responsiveMenu (state_of (loadCoreModules cp p a)) =
           (if cp = MainJs \<and> hasElement p ''menuToggle'' then Some ResponsiveMenuInstance
            else responsiveMenu a)"
    and "gallery (state_of (loadCoreModules cp p a)) = gallery a"
    and "lightbox (state_of (loadCoreModules cp p a)) = lightbox a"
    and "formValidator (state_of (loadCoreModules cp p a)) = formValidator a"
    and "currentPage (state_of (loadCoreModules cp p a)) = currentPage a"
  by (simp_all add: loadCoreModules_def import_ok [OF assms] Let_def darkMode_def
      lazyLoading_def log_fields act_fields)

lemma page_ok:
  assumes "\<forall>m. importable p m"
  shows "returns (loadPageModules p a)"
    and "themeToggle (state_of (loadPageModules p a)) = themeToggle a"
    and "responsiveMenu (state_of (loadPageModules p a)) = responsiveMenu a"
    and "gallery (state_of (loadPageModules p a)) =
           (if currentPage a = ''portafolio'' \<and> hasElement p ''galleryGrid''
            then Some GalleryInstance else gallery a)"
    and "lightbox (state_of (loadPageModules p a)) =
           (if currentPage a = ''portafolio'' \<and> hasElement p ''lightbox''
            then Some LightboxInstance else lightbox a)"
    and "formValidator (state_of (loadPageModules p a)) =
           (if currentPage a = ''contacto'' \<and> hasElement p ''contactForm''
            then Some (FormValidatorInstance ''contactForm'') else formValidator a)"
    and "currentPage (state_of (loadPageModules p a)) = currentPage a"
  by (simp_all add: loadPageModules_def loadHomeModules_def loadPortfolioModules_def
      loadTechniquesModules_def loadProgressModules_def loadContactModules_def
      loadMaterialsModules_def import_ok [OF assms] Let_def log_fields act_fields)

lemma new_fields:
  "themeToggle (AcuarelaArteApp_new p) = None"
  "responsiveMenu (AcuarelaArteApp_new p) = None"
  "gallery (AcuarelaArteApp_new p) = None"
  "lightbox (AcuarelaArteApp_new p) = None"
  "formValidator (AcuarelaArteApp_new p) = None"
  "currentPage (AcuarelaArteApp_new p) = getCurrentPage p"
  "bodyPrepended (AcuarelaArteApp_new p) = []"
  "isInitialized (AcuarelaArteApp_new p) = False"
  by (simp_all add: AcuarelaArteApp_new_def)

lemma init_slots:
  "themeToggle (state_of (init cp p a)) = themeToggle (state_of (init_body cp p a))"
  "responsiveMenu (state_of (init cp p a)) = responsiveMenu (state_of (init_body cp p a))"
  "gallery (state_of (init cp p a)) = gallery (state_of (init_body cp p a))"
  "lightbox (state_of (init cp p a)) = lightbox (state_of (init_body cp p a))"
  "formValidator (state_of (init cp p a)) = formValidator (state_of (init_body cp p a))"
  by (cases "init_body cp p a"; simp add: init_def handleInitError_def)+

lemma init_body_ok:
  assumes imp: "\<forall>m. importable p m"
  shows "returns (init_body cp p a)"
    and "themeToggle (state_of (init_body cp p a)) =
           (if hasElement p ''themeToggle'' then Some ThemeToggleInstance else themeToggle a)"
    and "responsiveMenu (state_of (init_body cp p a)) =
           (if cp = MainJs \<and> hasElement p ''menuToggle'' then Some ResponsiveMenuInstance
            else responsiveMenu a)"
    and "gallery (state_of (init_body cp p a)) =
           (if currentPage a = ''portafolio'' \<and> hasElement p ''galleryGrid''
            then Some GalleryInstance else gallery a)"
    and "lightbox (state_of (init_body cp p a)) =
           (if currentPage a = ''portafolio'' \<and> hasElement p ''lightbox''
            then Some LightboxInstance else lightbox a)"
    and "formValidator (state_of (init_body cp p a)) =
           (if currentPage a = ''contacto'' \<and> hasElement p ''contactForm''
            then Some (FormValidatorInstance ''contactForm'') else formValidator a)"
    and "isInitialized (state_of (init_body cp p a))"
proof -
  define a0 where "a0 = app_log p ''Inicializando AcuarelaArte App...'' a"
  define a1 where "a1 = state_of (loadCoreModules cp p a0)"
  define a2 where "a2 = state_of (loadPageModules p a1)"
  define fin where "fin = (\<lambda>a2. let a3 = applyTheme (app_theme a2) (initGlobalListeners p a2);
                     a4 = a3\<lparr>isInitialized := True\<rparr>;
                     a5 = app_log p (''Pagina actual: '' @ currentPage a4)
                            (if cp = MainJs
                             then app_log p ''App inicializada correctamente'' a4 else a4)
                 in a5\<lparr>app_events := app_events a5 @ [AppInitialized]\<rparr>)"
  have c1: "loadCoreModules cp p a0 = Normal a1"
    using core_ok(1) [OF imp, of cp a0]
    by (cases "loadCoreModules cp p a0") (simp_all add: a1_def)
  have c2: "loadPageModules p a1 = Normal a2"
    using page_ok(1) [OF imp, of a1]
    by (cases "loadPageModules p a1") (simp_all add: a2_def)
  have e: "init_body cp p a = Normal (fin a2)"
    unfolding init_body_def a0_def [symmetric]
    by (simp add: c1 c2 fin_def Let_def)
  have f: "themeToggle (fin x) = themeToggle x" "responsiveMenu (fin x) = responsiveMenu x"
    "gallery (fin x) = gallery x" "lightbox (fin x) = lightbox x"
    "formValidator (fin x) = formValidator x" "isInitialized (fin x)" for x
    by (simp_all add: fin_def Let_def app_log_def applyTheme_def initGlobalListeners_def act_def)
  have c: "currentPage a1 = currentPage a"
    by (simp add: a1_def a0_def core_ok [OF imp] log_fields)
  show "returns (init_body cp p a)" by (simp add: e)
  show "themeToggle (state_of (init_body cp p a)) =
           (if hasElement p ''themeToggle'' then Some ThemeToggleInstance else themeToggle a)"
    by (simp add: e f a2_def page_ok [OF imp] a1_def core_ok [OF imp] a0_def log_fields)
  show "responsiveMenu (state_of (init_body cp p a)) =
           (if cp = MainJs \<and> hasElement p ''menuToggle'' then Some ResponsiveMenuInstance
            else responsiveMenu a)"
    by (simp add: e f a2_def page_ok [OF imp] a1_def core_ok [OF imp] a0_def log_fields)
  show "gallery (state_of (init_body cp p a)) =
           (if currentPage a = ''portafolio'' \<and> hasElement p ''galleryGrid''
            then Some GalleryInstance else gallery a)"
    by (simp add: e f a2_def page_ok [OF imp] c) (simp add: a1_def core_ok [OF imp] a0_def log_fields)
  show "lightbox (state_of (init_body cp p a)) =
           (if currentPage a = ''portafolio'' \<and> hasElement p ''lightbox''
            then Some LightboxInstance else lightbox a)"
    by (simp add: e f a2_def page_ok [OF imp] c) (simp add: a1_def core_ok [OF imp] a0_def log_fields)
  show "formValidator (state_of (init_body cp p a)) =
           (if currentPage a = ''contacto'' \<and> hasElement p ''contactForm''
            then Some (FormValidatorInstance ''contactForm'') else formValidator a)"
    by (simp add: e f a2_def page_ok [OF imp] c) (simp add: a1_def core_ok [OF imp] a0_def log_fields)
  show "isInitialized (state_of (init_body cp p a))" by (simp add: e f)
qed

lemma example_pages:
  "getCurrentPage example_home = ''index''"
  "getCurrentPage example_portfolio = ''portafolio''"
  "getCurrentPage example_offline = ''index''"
  by (simp_all add: getCurrentPage_def last_segment_def example_home_def example_portfolio_def
      example_offline_def)

lemma example_contact_page: "getCurrentPage example_contact = ''contacto''"
  by (simp add: getCurrentPage_def last_segment_def example_contact_def)

text \<open>
  Claim C5, as amended. After the application has started, a module slot is non-null only
  if the element of its component exists, and moreover only on the page that loads the
  component: the gallery and the lightbox on \<open>portafolio\<close>, the form validator on
  \<open>contacto\<close>, the responsive menu only in the copy of the orchestrator that creates it.
  When every dynamic import resolves the converse holds as well, so each slot holds its
  component exactly under these conditions and is null otherwise.
\<close>
theorem modules_wired_by_element_and_page:
  "(themeToggle (state_of (start cp p)) \<noteq> None \<longrightarrow> hasElement p ''themeToggle'') \<and>
   (responsiveMenu (state_of (start cp p)) \<noteq> None \<longrightarrow>
      cp = MainJs \<and> hasElement p ''menuToggle'') \<and>
   (gallery (state_of (start cp p)) \<noteq> None \<longrightarrow>
      getCurrentPage p = ''portafolio'' \<and> hasElement p ''galleryGrid'') \<and>
   (lightbox (state_of (start cp p)) \<noteq> None \<longrightarrow>
      getCurrentPage p = ''portafolio'' \<and> hasElement p ''lightbox'') \<and>
   (formValidator (state_of (start cp p)) \<noteq> None \<longrightarrow>
      getCurrentPage p = ''contacto'' \<and> hasElement p ''contactForm'') \<and>
   ((\<forall>m. importable p m) \<longrightarrow>
      themeToggle (state_of (start cp p)) =
        (if hasElement p ''themeToggle'' then Some ThemeToggleInstance else None) \<and>
      responsiveMenu (state_of (start cp p)) =
        (if cp = MainJs \<and> hasElement p ''menuToggle'' then Some ResponsiveMenuInstance
         else None) \<and>
      gallery (state_of (start cp p)) =
        (if getCurrentPage p = ''portafolio'' \<and> hasElement p ''galleryGrid''
         then Some GalleryInstance else None) \<and>
      lightbox (state_of (start cp p)) =
        (if getCurrentPage p = ''portafolio'' \<and> hasElement p ''lightbox''
         then Some LightboxInstance else None) \<and>
      formValidator (state_of (start cp p)) =
        (if getCurrentPage p = ''contacto'' \<and> hasElement p ''contactForm''
         then Some (FormValidatorInstance ''contactForm'') else None))"
proof -
  let ?n = "AcuarelaArteApp_new p"
  let ?b = "state_of (init_body cp p ?n)"
  have w: "wired cp p ?n ?b" by (rule wired_init_body)
  have s: "themeToggle (state_of (start cp p)) = themeToggle ?b"
    "responsiveMenu (state_of (start cp p)) = responsiveMenu ?b"
    "gallery (state_of (start cp p)) = gallery ?b"
    "lightbox (state_of (start cp p)) = lightbox ?b"
    "formValidator (state_of (start cp p)) = formValidator ?b"
    by (simp_all add: start_def init_slots)
  have only_if:
    "themeToggle ?b \<noteq> None \<longrightarrow> hasElement p ''themeToggle''"
    "responsiveMenu ?b \<noteq> None \<longrightarrow> cp = MainJs \<and> hasElement p ''menuToggle''"
    "gallery ?b \<noteq> None \<longrightarrow> getCurrentPage p = ''portafolio'' \<and> hasElement p ''galleryGrid''"
    "lightbox ?b \<noteq> None \<longrightarrow> getCurrentPage p = ''portafolio'' \<and> hasElement p ''lightbox''"
    "formValidator ?b \<noteq> None \<longrightarrow> getCurrentPage p = ''contacto'' \<and> hasElement p ''contactForm''"
    using w unfolding wired_def new_fields by (elim conjE disjE; simp)+
  have "if": "themeToggle ?b =
        (if hasElement p ''themeToggle'' then Some ThemeToggleInstance else None) \<and>
      responsiveMenu ?b =
        (if cp = MainJs \<and> hasElement p ''menuToggle'' then Some ResponsiveMenuInstance
         else None) \<and>
      gallery ?b =
        (if getCurrentPage p = ''portafolio'' \<and> hasElement p ''galleryGrid''
         then Some GalleryInstance else None) \<and>
      lightbox ?b =
        (if getCurrentPage p = ''portafolio'' \<and> hasElement p ''lightbox''
         then Some LightboxInstance else None) \<and>
      formValidator ?b =
        (if getCurrentPage p = ''contacto'' \<and> hasElement p ''contactForm''
         then Some (FormValidatorInstance ''contactForm'') else None)"
    if imp: "\<forall>m. importable p m"
    by (simp only: init_body_ok [OF imp] new_fields simp_thms)
  show ?thesis
    unfolding s by (intro conjI only_if) (rule impI, erule "if")
qed

theorem modules_wired_by_element_and_page_witness:
  "(\<forall>m. importable example_portfolio m) \<and>
   themeToggle (state_of (start MainJs example_portfolio)) = Some ThemeToggleInstance \<and>
   responsiveMenu (state_of (start MainJs example_portfolio)) = Some ResponsiveMenuInstance \<and>
   responsiveMenu (state_of (start MenuCommentedOut example_portfolio)) = None \<and>
   gallery (state_of (start MainJs example_portfolio)) = Some GalleryInstance \<and>
   lightbox (state_of (start MainJs example_portfolio)) = Some LightboxInstance \<and>
   formValidator (state_of (start MainJs example_portfolio)) = None \<and>
   formValidator (state_of (start MainJs example_contact)) =
     Some (FormValidatorInstance ''contactForm'')"
proof -
  have imp: "\<forall>m. importable example_portfolio m" "\<forall>m. importable example_contact m"
    by (simp_all add: example_portfolio_def example_contact_def)
  have h: "hasElement example_portfolio i" "hasElement example_contact i" for i
    by (simp_all add: example_portfolio_def example_contact_def)
  from modules_wired_by_element_and_page [of MainJs example_portfolio]
       modules_wired_by_element_and_page [of MenuCommentedOut example_portfolio]
       modules_wired_by_element_and_page [of MainJs example_contact] imp
  show ?thesis by (simp add: h example_pages example_contact_page)
qed

text \<open>
  Claim C5 as stated fails on the home page: the element \<open>galleryGrid\<close> exists and every
  import resolves, and the gallery slot stays null.
\<close>
theorem gallery_needs_portfolio_page:
  "\<not> (gallery (state_of (start MainJs example_home)) \<noteq> None \<longleftrightarrow>
        hasElement example_home ''galleryGrid'')"
proof -
  have imp: "\<forall>m. importable example_home m" by (simp add: example_home_def)
  have "gallery (state_of (start MainJs example_home)) = None"
    by (simp add: start_def init_slots init_body_ok [OF imp] new_fields example_pages)
  moreover have "hasElement example_home ''galleryGrid''" by (simp add: example_home_def)
  ultimately show ?thesis by simp
qed




section \<open>Error paths across the components\<close>




end
